theory Spec2Isabelle
  imports
    Main
    "HOL-Library.Option_ord"
    "HOL-Library.List_Lexorder"
    "HOL-Library.Char_ord"
    "HOL-Library.Multiset"
begin

section \<open>Strings\<close>

text \<open>
  A .NET string is modelled as a \<^typ>\<open>string\<close>; a nullable string as a
  \<^typ>\<open>string option\<close> with \<open>None\<close> for \<open>null\<close>. Characters are
  taken in the Latin-1 range, where \<open>char.IsWhiteSpace\<close> is true of the space, of
  U+0009 to U+000D, of U+0085 and of U+00A0.
\<close>

definition IsWhiteSpace :: "char \<Rightarrow> bool" where
  "IsWhiteSpace c =
     (c \<in> set [CHR '' '', CHR 0x09, CHR 0x0A, CHR 0x0B, CHR 0x0C, CHR 0x0D, CHR 0x85, CHR 0xA0])"

text \<open>\<open>String.Trim()\<close>: removes all leading and trailing white-space characters.\<close>

definition Trim :: "string \<Rightarrow> string" where
  "Trim s = rev (dropWhile IsWhiteSpace (rev (dropWhile IsWhiteSpace s)))"

text \<open>\<open>string.IsNullOrWhiteSpace\<close>: null, empty, or white-space characters only.\<close>

definition IsNullOrWhiteSpace :: "string option \<Rightarrow> bool" where
  "IsNullOrWhiteSpace s = (case s of None \<Rightarrow> True | Some v \<Rightarrow> list_all IsWhiteSpace v)"

text \<open>
  Lower case in the Latin-1 range. The letters A to Z have the small letters a to z;
  the capital letters U+00C0 to U+00DE, but for the multiplication sign U+00D7,
  have the small letters 32 positions above them.
\<close>

definition AsciiLower :: "char \<Rightarrow> char option" where
  "AsciiLower = map_of (zip ''ABCDEFGHIJKLMNOPQRSTUVWXYZ'' ''abcdefghijklmnopqrstuvwxyz'')"

definition Latin1Capitals :: string where
  "Latin1Capitals =
     [CHR 0xC0, CHR 0xC1, CHR 0xC2, CHR 0xC3, CHR 0xC4, CHR 0xC5, CHR 0xC6, CHR 0xC7,
      CHR 0xC8, CHR 0xC9, CHR 0xCA, CHR 0xCB, CHR 0xCC, CHR 0xCD, CHR 0xCE, CHR 0xCF,
      CHR 0xD0, CHR 0xD1, CHR 0xD2, CHR 0xD3, CHR 0xD4, CHR 0xD5, CHR 0xD6, CHR 0xD8,
      CHR 0xD9, CHR 0xDA, CHR 0xDB, CHR 0xDC, CHR 0xDD, CHR 0xDE]"

definition Latin1Lower :: "char \<Rightarrow> char option" where
  "Latin1Lower =
     map_of (zip Latin1Capitals
     [CHR 0xE0, CHR 0xE1, CHR 0xE2, CHR 0xE3, CHR 0xE4, CHR 0xE5, CHR 0xE6, CHR 0xE7,
      CHR 0xE8, CHR 0xE9, CHR 0xEA, CHR 0xEB, CHR 0xEC, CHR 0xED, CHR 0xEE, CHR 0xEF,
      CHR 0xF0, CHR 0xF1, CHR 0xF2, CHR 0xF3, CHR 0xF4, CHR 0xF5, CHR 0xF6, CHR 0xF8,
      CHR 0xF9, CHR 0xFA, CHR 0xFB, CHR 0xFC, CHR 0xFD, CHR 0xFE])"

text \<open>
  \<open>ToLower()\<close> / \<open>ToLowerInvariant()\<close> of .NET (invariant casing): every capital
  letter of the range becomes its small letter.
\<close>

definition ToLowerChar :: "char \<Rightarrow> char" where
  "ToLowerChar c =
     (case AsciiLower c of
        Some d \<Rightarrow> d
      | None \<Rightarrow> (case Latin1Lower c of Some d \<Rightarrow> d | None \<Rightarrow> c))"

definition ToLower :: "string \<Rightarrow> string" where
  "ToLower s = map ToLowerChar s"

text \<open>
  The lower case of the store. A \<open>ToLower()\<close> inside a query is not run by .NET: it
  is translated to the function \<open>lower\<close> of the store (SQLite), which changes the
  letters A to Z only and leaves every other character as it is.
\<close>

definition StoreLowerChar :: "char \<Rightarrow> char" where
  "StoreLowerChar c = (case AsciiLower c of Some d \<Rightarrow> d | None \<Rightarrow> c)"

definition StoreLower :: "string \<Rightarrow> string" where
  "StoreLower s = map StoreLowerChar s"

fun StartsWith :: "string \<Rightarrow> string \<Rightarrow> bool" where
  "StartsWith s [] = True"
| "StartsWith [] (p # ps) = False"
| "StartsWith (c # cs) (p # ps) = (c = p \<and> StartsWith cs ps)"

text \<open>\<open>s.Contains(p)\<close>: \<open>p\<close> occurs in \<open>s\<close> as a contiguous substring.\<close>

fun Contains :: "string \<Rightarrow> string \<Rightarrow> bool" where
  "Contains [] p = (p = [])"
| "Contains (c # cs) p = (StartsWith (c # cs) p \<or> Contains cs p)"


section \<open>Entities and data transfer objects\<close>

text \<open>
  A \<open>DateTime\<close> is a point in time counted in whole seconds; a nullable value is an
  option. The C\# \<open>int\<close> fields are identifiers, priorities and counts, far from the
  bounds of 32 bits, and are modelled as \<^typ>\<open>int\<close>.
\<close>

type_synonym DateTime = int

record User =
  Id :: int
  Email :: string
  PasswordHash :: string
  CreatedAt :: DateTime

record TodoTask =
  Id :: int
  UserId :: int
  Title :: string
  Description :: "string option"
  DueDate :: "DateTime option"
  Priority :: int
  IsCompleted :: bool
  CreatedAt :: DateTime
  UpdatedAt :: "DateTime option"

text \<open>The two tables of \<open>AppDbContext\<close>, as lists of rows.\<close>

record AppDbContext =
  Users :: "User list"
  Tasks :: "TodoTask list"

record CreateTaskRequest =
  Title :: string
  Description :: "string option"
  DueDate :: "DateTime option"
  Priority :: int

record UpdateTaskRequest =
  Title :: "string option"
  Description :: "string option"
  DueDate :: "DateTime option"
  Priority :: "int option"
  IsCompleted :: "bool option"

record TaskResponse =
  Id :: int
  Title :: string
  Description :: "string option"
  DueDate :: "DateTime option"
  Priority :: int
  IsCompleted :: bool
  CreatedAt :: DateTime
  UpdatedAt :: "DateTime option"

record TaskQueryParams =
  IsCompleted :: "bool option"
  Priority :: "int option"
  DueBefore :: "DateTime option"
  DueAfter :: "DateTime option"
  Search :: "string option"
  SortBy :: string
  SortDirection :: string

record TaskListResponse =
  Tasks :: "TaskResponse list"
  TotalCount :: int
  CompletedCount :: int
  PendingCount :: int

definition PriorityLabel :: "TaskResponse \<Rightarrow> string" where
  "PriorityLabel r =
     (if TaskResponse.Priority r = 1 then ''Low''
      else if TaskResponse.Priority r = 2 then ''Medium''
      else if TaskResponse.Priority r = 3 then ''High''
      else ''Unknown'')"


section \<open>The task service\<close>

definition MapToResponse :: "TodoTask \<Rightarrow> TaskResponse" where
  "MapToResponse task =
     \<lparr>TaskResponse.Id = TodoTask.Id task,
      TaskResponse.Title = TodoTask.Title task,
      TaskResponse.Description = TodoTask.Description task,
      TaskResponse.DueDate = TodoTask.DueDate task,
      TaskResponse.Priority = TodoTask.Priority task,
      TaskResponse.IsCompleted = TodoTask.IsCompleted task,
      TaskResponse.CreatedAt = TodoTask.CreatedAt task,
      TaskResponse.UpdatedAt = TodoTask.UpdatedAt task\<rparr>"

text \<open>
  \<open>GetUserTaskAsync\<close>: \<open>FirstOrDefaultAsync(t => t.Id == taskId && t.UserId == userId)\<close>,
  the first row that satisfies the predicate, or null.
\<close>

definition GetUserTaskAsync :: "AppDbContext \<Rightarrow> int \<Rightarrow> int \<Rightarrow> TodoTask option" where
  "GetUserTaskAsync ctx userId taskId =
     find (\<lambda>t. TodoTask.Id t = taskId \<and> TodoTask.UserId t = userId) (AppDbContext.Tasks ctx)"

text \<open>
  \<open>ApplyFilters\<close>: each supplied parameter adds one \<open>Where\<close> to the query, in the
  order of the source. The search term is lowered by .NET before the query is built
  (\<open>queryParams.Search.ToLower()\<close>); the title and the description are lowered
  inside the query, by the store.
\<close>

definition ApplyFilters :: "TodoTask list \<Rightarrow> TaskQueryParams \<Rightarrow> TodoTask list" where
  "ApplyFilters query queryParams =
     (let q1 = (case TaskQueryParams.IsCompleted queryParams of
                  None \<Rightarrow> query
                | Some v \<Rightarrow> filter (\<lambda>t. TodoTask.IsCompleted t = v) query);
          q2 = (case TaskQueryParams.Priority queryParams of
                  None \<Rightarrow> q1
                | Some v \<Rightarrow> filter (\<lambda>t. TodoTask.Priority t = v) q1);
          q3 = (case DueBefore queryParams of
                  None \<Rightarrow> q2
                | Some v \<Rightarrow>
                    filter (\<lambda>t. TodoTask.DueDate t \<noteq> None \<and> TodoTask.DueDate t \<le> Some v) q2);
          q4 = (case DueAfter queryParams of
                  None \<Rightarrow> q3
                | Some v \<Rightarrow>
                    filter (\<lambda>t. TodoTask.DueDate t \<noteq> None \<and> TodoTask.DueDate t \<ge> Some v) q3)
      in if \<not> IsNullOrWhiteSpace (Search queryParams)
         then (let searchTerm = ToLower (the (Search queryParams))
               in filter (\<lambda>t. Contains (StoreLower (TodoTask.Title t)) searchTerm \<or>
                               (case TodoTask.Description t of
                                  None \<Rightarrow> False
                                | Some d \<Rightarrow> Contains (StoreLower d) searchTerm)) q4)
         else q4)"

text \<open>
  \<open>OrderBy\<close> and \<open>OrderByDescending\<close> sort by the default comparison of the key.
  For a nullable key that comparison, in .NET as in SQLite, puts null below every
  value; \<^typ>\<open>'a option\<close> is ordered the same way (\<open>None < Some x\<close>). Rows with equal
  keys keep their relative order.
\<close>

definition OrderBy :: "('a \<Rightarrow> 'k::linorder) \<Rightarrow> 'a list \<Rightarrow> 'a list" where
  "OrderBy key query = sort_key key query"

definition OrderByDescending :: "('a \<Rightarrow> 'k::linorder) \<Rightarrow> 'a list \<Rightarrow> 'a list" where
  "OrderByDescending key query = rev (sort_key key (rev query))"

definition ApplySorting :: "TodoTask list \<Rightarrow> TaskQueryParams \<Rightarrow> TodoTask list" where
  "ApplySorting query queryParams =
     (let isDescending = (ToLower (SortDirection queryParams) = ''desc'');
          sortBy = ToLower (SortBy queryParams)
      in if sortBy = ''duedate'' then
           (if isDescending then OrderByDescending TodoTask.DueDate query
            else OrderBy TodoTask.DueDate query)
         else if sortBy = ''priority'' then
           (if isDescending then OrderByDescending TodoTask.Priority query
            else OrderBy TodoTask.Priority query)
         else if sortBy = ''title'' then
           (if isDescending then OrderByDescending TodoTask.Title query
            else OrderBy TodoTask.Title query)
         else
           (if isDescending then OrderByDescending TodoTask.CreatedAt query
            else OrderBy TodoTask.CreatedAt query))"

definition GetTasksAsync :: "AppDbContext \<Rightarrow> int \<Rightarrow> TaskQueryParams \<Rightarrow> TaskListResponse" where
  "GetTasksAsync ctx userId queryParams =
     (let query0 = filter (\<lambda>t. TodoTask.UserId t = userId) (AppDbContext.Tasks ctx);
          query1 = ApplyFilters query0 queryParams;
          totalCount = int (length query1);
          completedCount = int (length (filter TodoTask.IsCompleted query1));
          pendingCount = totalCount - completedCount;
          query2 = ApplySorting query1 queryParams
      in \<lparr>TaskListResponse.Tasks = map MapToResponse query2,
          TotalCount = totalCount,
          CompletedCount = completedCount,
          PendingCount = pendingCount\<rparr>)"

definition GetTaskByIdAsync :: "AppDbContext \<Rightarrow> int \<Rightarrow> int \<Rightarrow> TaskResponse option" where
  "GetTaskByIdAsync ctx userId taskId =
     (case GetUserTaskAsync ctx userId taskId of
        None \<Rightarrow> None
      | Some task \<Rightarrow> Some (MapToResponse task))"

text \<open>
  \<open>SaveChangesAsync\<close>, for each kind of pending change. An added row receives its key
  from the store: one more than the largest key of the table. A modified or removed
  tracked row is written or deleted by its primary key.
\<close>

definition NextId :: "int list \<Rightarrow> int" where
  "NextId ids = fold max ids 0 + 1"

definition SaveAddedTask :: "AppDbContext \<Rightarrow> TodoTask \<Rightarrow> TodoTask \<times> AppDbContext" where
  "SaveAddedTask ctx task =
     (let task' = task\<lparr>TodoTask.Id := NextId (map TodoTask.Id (AppDbContext.Tasks ctx))\<rparr>
      in (task', ctx\<lparr>AppDbContext.Tasks := AppDbContext.Tasks ctx @ [task']\<rparr>))"

definition SaveModifiedTask :: "AppDbContext \<Rightarrow> TodoTask \<Rightarrow> AppDbContext" where
  "SaveModifiedTask ctx task =
     ctx\<lparr>AppDbContext.Tasks :=
           map (\<lambda>t. if TodoTask.Id t = TodoTask.Id task then task else t) (AppDbContext.Tasks ctx)\<rparr>"

definition SaveRemovedTask :: "AppDbContext \<Rightarrow> TodoTask \<Rightarrow> AppDbContext" where
  "SaveRemovedTask ctx task =
     ctx\<lparr>AppDbContext.Tasks :=
           filter (\<lambda>t. TodoTask.Id t \<noteq> TodoTask.Id task) (AppDbContext.Tasks ctx)\<rparr>"

text \<open>The mutating operations take the clock reading \<open>DateTime.UtcNow\<close> as \<open>now\<close>.\<close>

definition CreateTaskAsync ::
  "DateTime \<Rightarrow> AppDbContext \<Rightarrow> int \<Rightarrow> CreateTaskRequest \<Rightarrow> TaskResponse \<times> AppDbContext" where
  "CreateTaskAsync now ctx userId request =
     (let task = \<lparr>TodoTask.Id = 0,
                  TodoTask.UserId = userId,
                  TodoTask.Title = Trim (CreateTaskRequest.Title request),
                  TodoTask.Description = map_option Trim (CreateTaskRequest.Description request),
                  TodoTask.DueDate = CreateTaskRequest.DueDate request,
                  TodoTask.Priority = CreateTaskRequest.Priority request,
                  TodoTask.IsCompleted = False,
                  TodoTask.CreatedAt = now,
                  TodoTask.UpdatedAt = None\<rparr>;
          saved = SaveAddedTask ctx task
      in (MapToResponse (fst saved), snd saved))"

text \<open>
  The field assignments of \<open>UpdateTaskAsync\<close>, in the order of the source: each is
  guarded by \<open>!= null\<close> or \<open>HasValue\<close>; the stamp of \<open>UpdatedAt\<close> is not guarded.
\<close>

definition ApplyUpdate :: "DateTime \<Rightarrow> TodoTask \<Rightarrow> UpdateTaskRequest \<Rightarrow> TodoTask" where
  "ApplyUpdate now task request =
     (let t1 = (case UpdateTaskRequest.Title request of
                  None \<Rightarrow> task
                | Some v \<Rightarrow> task\<lparr>TodoTask.Title := Trim v\<rparr>);
          t2 = (case UpdateTaskRequest.Description request of
                  None \<Rightarrow> t1
                | Some v \<Rightarrow> t1\<lparr>TodoTask.Description := Some (Trim v)\<rparr>);
          t3 = (case UpdateTaskRequest.DueDate request of
                  None \<Rightarrow> t2
                | Some v \<Rightarrow> t2\<lparr>TodoTask.DueDate := Some v\<rparr>);
          t4 = (case UpdateTaskRequest.Priority request of
                  None \<Rightarrow> t3
                | Some v \<Rightarrow> t3\<lparr>TodoTask.Priority := v\<rparr>);
          t5 = (case UpdateTaskRequest.IsCompleted request of
                  None \<Rightarrow> t4
                | Some v \<Rightarrow> t4\<lparr>TodoTask.IsCompleted := v\<rparr>)
      in t5\<lparr>TodoTask.UpdatedAt := Some now\<rparr>)"

definition UpdateTaskAsync ::
  "DateTime \<Rightarrow> AppDbContext \<Rightarrow> int \<Rightarrow> int \<Rightarrow> UpdateTaskRequest
     \<Rightarrow> TaskResponse option \<times> AppDbContext" where
  "UpdateTaskAsync now ctx userId taskId request =
     (case GetUserTaskAsync ctx userId taskId of
        None \<Rightarrow> (None, ctx)
      | Some task \<Rightarrow>
          (let task' = ApplyUpdate now task request
           in (Some (MapToResponse task'), SaveModifiedTask ctx task')))"

definition DeleteTaskAsync :: "AppDbContext \<Rightarrow> int \<Rightarrow> int \<Rightarrow> bool \<times> AppDbContext" where
  "DeleteTaskAsync ctx userId taskId =
     (case GetUserTaskAsync ctx userId taskId of
        None \<Rightarrow> (False, ctx)
      | Some task \<Rightarrow> (True, SaveRemovedTask ctx task))"

definition ToggleCompletionAsync ::
  "DateTime \<Rightarrow> AppDbContext \<Rightarrow> int \<Rightarrow> int \<Rightarrow> TaskResponse option \<times> AppDbContext" where
  "ToggleCompletionAsync now ctx userId taskId =
     (case GetUserTaskAsync ctx userId taskId of
        None \<Rightarrow> (None, ctx)
      | Some task \<Rightarrow>
          (let task' = task\<lparr>TodoTask.IsCompleted := \<not> TodoTask.IsCompleted task,
                            TodoTask.UpdatedAt := Some now\<rparr>
           in (Some (MapToResponse task'), SaveModifiedTask ctx task')))"


section \<open>The task endpoints\<close>

text \<open>
  The outcome of a controller action: the status and the body that reach the caller.
  \<open>ValidationProblem\<close> is the automatic 400 response of an \<open>[ApiController]\<close> for
  a request whose model state is invalid; the action body does not run for it.
\<close>

datatype 'a ActionResult =
    Ok 'a
  | CreatedAtAction 'a
  | NoContent
  | ValidationProblem
  | BadRequest string
  | Unauthorized string
  | NotFound string
  | Conflict string
  | InternalServerError string

text \<open>
  The validation attributes placed on the request classes. \<open>[Required]\<close> rejects null
  and, for a string, a value that is empty or white space only; \<open>[MaxLength]\<close>,
  \<open>[MinLength]\<close> and \<open>[Range]\<close> accept null and otherwise bound the length or the value.
\<close>

definition RequiredAttribute :: "string \<Rightarrow> bool" where
  "RequiredAttribute v = (\<not> IsNullOrWhiteSpace (Some v))"

definition MaxLengthAttribute :: "nat \<Rightarrow> string \<Rightarrow> bool" where
  "MaxLengthAttribute n v = (length v \<le> n)"

definition MinLengthAttribute :: "nat \<Rightarrow> string \<Rightarrow> bool" where
  "MinLengthAttribute n v = (n \<le> length v)"

definition RangeAttribute :: "int \<Rightarrow> int \<Rightarrow> int \<Rightarrow> bool" where
  "RangeAttribute lo hi v = (lo \<le> v \<and> v \<le> hi)"

definition Nullable :: "('a \<Rightarrow> bool) \<Rightarrow> 'a option \<Rightarrow> bool" where
  "Nullable valid v = (case v of None \<Rightarrow> True | Some x \<Rightarrow> valid x)"

definition IsValidCreateTaskRequest :: "CreateTaskRequest \<Rightarrow> bool" where
  "IsValidCreateTaskRequest request =
     (RequiredAttribute (CreateTaskRequest.Title request) \<and>
      MaxLengthAttribute 200 (CreateTaskRequest.Title request) \<and>
      Nullable (MaxLengthAttribute 2000) (CreateTaskRequest.Description request) \<and>
      RangeAttribute 1 3 (CreateTaskRequest.Priority request))"

definition IsValidUpdateTaskRequest :: "UpdateTaskRequest \<Rightarrow> bool" where
  "IsValidUpdateTaskRequest request =
     (Nullable (MaxLengthAttribute 200) (UpdateTaskRequest.Title request) \<and>
      Nullable (MaxLengthAttribute 2000) (UpdateTaskRequest.Description request) \<and>
      Nullable (RangeAttribute 1 3) (UpdateTaskRequest.Priority request))"

definition IsValidTaskQueryParams :: "TaskQueryParams \<Rightarrow> bool" where
  "IsValidTaskQueryParams queryParams =
     (Nullable (RangeAttribute 1 3) (TaskQueryParams.Priority queryParams) \<and>
      Nullable (MaxLengthAttribute 100) (Search queryParams))"

text \<open>
  The actions of \<open>TasksController\<close>. \<open>userId\<close> is the value of \<open>GetCurrentUserId()\<close>,
  the identity carried by the validated token.
\<close>

definition GetTasks ::
  "AppDbContext \<Rightarrow> int \<Rightarrow> TaskQueryParams \<Rightarrow> TaskListResponse ActionResult" where
  "GetTasks ctx userId queryParams =
     (if \<not> IsValidTaskQueryParams queryParams then ValidationProblem
      else Ok (GetTasksAsync ctx userId queryParams))"

definition GetTask :: "AppDbContext \<Rightarrow> int \<Rightarrow> int \<Rightarrow> TaskResponse ActionResult" where
  "GetTask ctx userId taskId =
     (case GetTaskByIdAsync ctx userId taskId of
        None \<Rightarrow> NotFound ''Task not found''
      | Some task \<Rightarrow> Ok task)"

definition CreateTask ::
  "DateTime \<Rightarrow> AppDbContext \<Rightarrow> int \<Rightarrow> CreateTaskRequest
     \<Rightarrow> TaskResponse ActionResult \<times> AppDbContext" where
  "CreateTask now ctx userId request =
     (if \<not> IsValidCreateTaskRequest request then (ValidationProblem, ctx)
      else (let created = CreateTaskAsync now ctx userId request
            in (CreatedAtAction (fst created), snd created)))"

definition UpdateTask ::
  "DateTime \<Rightarrow> AppDbContext \<Rightarrow> int \<Rightarrow> int \<Rightarrow> UpdateTaskRequest
     \<Rightarrow> TaskResponse ActionResult \<times> AppDbContext" where
  "UpdateTask now ctx userId taskId request =
     (if \<not> IsValidUpdateTaskRequest request then (ValidationProblem, ctx)
      else (case UpdateTaskAsync now ctx userId taskId request of
              (None, ctx') \<Rightarrow> (NotFound ''Task not found'', ctx')
            | (Some task, ctx') \<Rightarrow> (Ok task, ctx')))"

definition DeleteTask ::
  "AppDbContext \<Rightarrow> int \<Rightarrow> int \<Rightarrow> TaskResponse ActionResult \<times> AppDbContext" where
  "DeleteTask ctx userId taskId =
     (case DeleteTaskAsync ctx userId taskId of
        (False, ctx') \<Rightarrow> (NotFound ''Task not found'', ctx')
      | (True, ctx') \<Rightarrow> (NoContent, ctx'))"

definition ToggleCompletion ::
  "DateTime \<Rightarrow> AppDbContext \<Rightarrow> int \<Rightarrow> int \<Rightarrow> TaskResponse ActionResult \<times> AppDbContext" where
  "ToggleCompletion now ctx userId taskId =
     (case ToggleCompletionAsync now ctx userId taskId of
        (None, ctx') \<Rightarrow> (NotFound ''Task not found'', ctx')
      | (Some task, ctx') \<Rightarrow> (Ok task, ctx'))"


section \<open>The authentication service\<close>

record RegisterRequest =
  Email :: string
  Password :: string
  ConfirmPassword :: string

record LoginRequest =
  Email :: string
  Password :: string

record UserInfo =
  Id :: int
  Email :: string

text \<open>\<open>JwtSettings\<close>; \<open>DefaultJwtSettings\<close> holds the property initialisers of the class.\<close>

record JwtSettings =
  SecretKey :: string
  Issuer :: string
  Audience :: string
  ExpirationMinutes :: int

definition DefaultJwtSettings :: JwtSettings where
  "DefaultJwtSettings =
     \<lparr>SecretKey = [], JwtSettings.Issuer = ''TodoApi'', JwtSettings.Audience = ''TodoFrontend'',
      ExpirationMinutes = 60\<rparr>"

text \<open>
  The token that \<open>GenerateAuthResponse\<close> builds, kept as the structure handed to
  \<open>JwtSecurityTokenHandler.WriteToken\<close>: issuer, audience, the four claims, the expiry
  and the key of the HMAC-SHA256 signature.
\<close>

record JwtSecurityToken =
  Issuer :: string
  Audience :: string
  NameIdentifier :: int
  Email :: string
  Jti :: string
  Iat :: DateTime
  ValidTo :: DateTime
  SigningKey :: string

record AuthResponse =
  Token :: JwtSecurityToken
  ExpiresAt :: DateTime
  User :: UserInfo

text \<open>
  What the service takes from its surroundings: the clock, the BCrypt library (its
  salted hash and its verification), the GUID generator and the host environment.
\<close>

record Runtime =
  UtcNow :: DateTime
  HashPassword :: "string \<Rightarrow> string"
  Verify :: "string \<Rightarrow> string \<Rightarrow> bool"
  NewGuid :: string
  IsDevelopment :: bool

text \<open>The calls a request makes to the logger and to BCrypt, in order.\<close>

datatype Event =
    LogInformation string
  | LogWarning string
  | LogError string
  | BCryptHashPassword string
  | BCryptVerify string string

datatype Exception =
    DbUpdateException string
  | UnauthorizedAccessException string
  | ArgumentException string

fun Message :: "Exception \<Rightarrow> string" where
  "Message (DbUpdateException m) = m"
| "Message (UnauthorizedAccessException m) = m"
| "Message (ArgumentException m) = m"

definition AddMinutes :: "DateTime \<Rightarrow> int \<Rightarrow> DateTime" where
  "AddMinutes t m = t + 60 * m"

definition GenerateAuthResponse :: "Runtime \<Rightarrow> JwtSettings \<Rightarrow> User \<Rightarrow> AuthResponse" where
  "GenerateAuthResponse rt jwtSettings user =
     (let expiresAt = AddMinutes (UtcNow rt) (ExpirationMinutes jwtSettings);
          token = \<lparr>JwtSecurityToken.Issuer = JwtSettings.Issuer jwtSettings,
                   JwtSecurityToken.Audience = JwtSettings.Audience jwtSettings,
                   NameIdentifier = User.Id user,
                   JwtSecurityToken.Email = User.Email user,
                   Jti = NewGuid rt,
                   Iat = UtcNow rt,
                   ValidTo = expiresAt,
                   SigningKey = SecretKey jwtSettings\<rparr>
      in \<lparr>Token = token,
          ExpiresAt = expiresAt,
          AuthResponse.User = \<lparr>UserInfo.Id = User.Id user, UserInfo.Email = User.Email user\<rparr>\<rparr>)"

definition EmailExistsAsync :: "AppDbContext \<Rightarrow> string \<Rightarrow> bool" where
  "EmailExistsAsync ctx email = list_ex (\<lambda>u. User.Email u = Trim (ToLower email)) (Users ctx)"

text \<open>
  \<open>SaveChangesAsync\<close> for an added user. The unique index on \<open>Email\<close> makes the
  store reject a row whose email a stored row already has; the rejection reaches
  the caller as a \<open>DbUpdateException\<close>.
\<close>

definition SaveAddedUser :: "AppDbContext \<Rightarrow> User \<Rightarrow> Exception + User \<times> AppDbContext" where
  "SaveAddedUser ctx user =
     (if list_ex (\<lambda>u. User.Email u = User.Email user) (Users ctx)
      then Inl (DbUpdateException ''UNIQUE constraint failed: Users.Email'')
      else (let user' = user\<lparr>User.Id := NextId (map User.Id (Users ctx))\<rparr>
            in Inr (user', ctx\<lparr>Users := Users ctx @ [user']\<rparr>)))"

text \<open>
  \<open>RegisterAsync\<close>. The existence check and the insert are two awaited store calls;
  \<open>others\<close> is what other requests commit to the store between the two (the
  identity when the request runs alone). The \<open>catch\<close> block logs and rethrows, so an
  exception of the insert is the outcome \<open>Inl\<close>.
\<close>

definition RegisterAsync ::
  "Runtime \<Rightarrow> JwtSettings \<Rightarrow> (AppDbContext \<Rightarrow> AppDbContext) \<Rightarrow> AppDbContext \<Rightarrow> RegisterRequest
     \<Rightarrow> (Exception + AuthResponse option) \<times> AppDbContext \<times> Event list" where
  "RegisterAsync rt jwtSettings others ctx request =
     (if EmailExistsAsync ctx (RegisterRequest.Email request)
      then (Inr None, ctx, [LogWarning ''Registration failed: Email {Email} already exists''])
      else
        (let user = \<lparr>User.Id = 0,
                     User.Email = Trim (ToLower (RegisterRequest.Email request)),
                     PasswordHash = HashPassword rt (RegisterRequest.Password request),
                     User.CreatedAt = UtcNow rt\<rparr>;
             hashed = BCryptHashPassword (RegisterRequest.Password request);
             ctx1 = others ctx
         in case SaveAddedUser ctx1 user of
              Inl ex \<Rightarrow>
                (Inl ex, ctx1, [hashed, LogError ''Error during user registration for {Email}''])
            | Inr (user', ctx2) \<Rightarrow>
                (Inr (Some (GenerateAuthResponse rt jwtSettings user')), ctx2,
                 [hashed, LogInformation ''User registered successfully: {Email}''])))"

definition LoginAsync ::
  "Runtime \<Rightarrow> JwtSettings \<Rightarrow> AppDbContext \<Rightarrow> LoginRequest \<Rightarrow> AuthResponse option \<times> Event list" where
  "LoginAsync rt jwtSettings ctx request =
     (case find (\<lambda>u. User.Email u = Trim (ToLower (LoginRequest.Email request))) (Users ctx) of
        None \<Rightarrow> (None, [LogWarning ''Login failed: User not found for {Email}''])
      | Some user \<Rightarrow>
          (let verified = BCryptVerify (LoginRequest.Password request) (PasswordHash user)
           in if \<not> Verify rt (LoginRequest.Password request) (PasswordHash user)
              then (None, [verified, LogWarning ''Login failed: Invalid password for {Email}''])
              else (Some (GenerateAuthResponse rt jwtSettings user),
                    [verified, LogInformation ''User logged in successfully: {Email}''])))"

text \<open>The number of password verifications in a sequence of calls.\<close>

definition VerifyCalls :: "Event list \<Rightarrow> nat" where
  "VerifyCalls events =
     length (filter (\<lambda>e. case e of BCryptVerify password hash \<Rightarrow> True | _ \<Rightarrow> False) events)"


section \<open>The authentication endpoints\<close>

text \<open>
  \<open>[EmailAddress]\<close> accepts a string with exactly one \<open>@\<close> that is neither its first
  nor its last character; \<open>[Compare]\<close> requires equality with the named property.
\<close>

definition EmailAddressAttribute :: "string \<Rightarrow> bool" where
  "EmailAddressAttribute v =
     (length (filter (\<lambda>c. c = CHR ''@'') v) = 1 \<and> v \<noteq> [] \<and> hd v \<noteq> CHR ''@'' \<and> last v \<noteq> CHR ''@'')"

definition IsValidRegisterRequest :: "RegisterRequest \<Rightarrow> bool" where
  "IsValidRegisterRequest request =
     (RequiredAttribute (RegisterRequest.Email request) \<and>
      EmailAddressAttribute (RegisterRequest.Email request) \<and>
      MaxLengthAttribute 255 (RegisterRequest.Email request) \<and>
      RequiredAttribute (RegisterRequest.Password request) \<and>
      MinLengthAttribute 8 (RegisterRequest.Password request) \<and>
      MaxLengthAttribute 100 (RegisterRequest.Password request) \<and>
      RequiredAttribute (ConfirmPassword request) \<and>
      ConfirmPassword request = RegisterRequest.Password request)"

definition IsValidLoginRequest :: "LoginRequest \<Rightarrow> bool" where
  "IsValidLoginRequest request =
     (RequiredAttribute (LoginRequest.Email request) \<and>
      EmailAddressAttribute (LoginRequest.Email request) \<and>
      RequiredAttribute (LoginRequest.Password request))"

text \<open>
  The actions of \<open>AuthController\<close>. An exception of the service passes through the
  action untouched.
\<close>

definition Register ::
  "Runtime \<Rightarrow> JwtSettings \<Rightarrow> (AppDbContext \<Rightarrow> AppDbContext) \<Rightarrow> AppDbContext \<Rightarrow> RegisterRequest
     \<Rightarrow> (Exception + AuthResponse ActionResult) \<times> AppDbContext \<times> Event list" where
  "Register rt jwtSettings others ctx request =
     (if \<not> IsValidRegisterRequest request then (Inr ValidationProblem, ctx, [])
      else (case RegisterAsync rt jwtSettings others ctx request of
              (Inl ex, ctx', events) \<Rightarrow> (Inl ex, ctx', events)
            | (Inr None, ctx', events) \<Rightarrow>
                (Inr (Conflict ''An account with this email already exists''), ctx', events)
            | (Inr (Some result), ctx', events) \<Rightarrow> (Inr (CreatedAtAction result), ctx', events)))"

definition Login ::
  "Runtime \<Rightarrow> JwtSettings \<Rightarrow> AppDbContext \<Rightarrow> LoginRequest
     \<Rightarrow> AuthResponse ActionResult \<times> Event list" where
  "Login rt jwtSettings ctx request =
     (if \<not> IsValidLoginRequest request then (ValidationProblem, [])
      else (case LoginAsync rt jwtSettings ctx request of
              (None, events) \<Rightarrow> (Unauthorized ''Invalid email or password'', events)
            | (Some result, events) \<Rightarrow> (Ok result, events)))"

text \<open>
  \<open>ExceptionMiddleware.InvokeAsync\<close>: the response for an exception that leaves the
  rest of the pipeline, by the \<open>catch\<close> clauses in their order.
\<close>

fun ExceptionMiddleware :: "bool \<Rightarrow> Exception + 'a ActionResult \<Rightarrow> 'a ActionResult" where
  "ExceptionMiddleware isDevelopment (Inr response) = response"
| "ExceptionMiddleware isDevelopment (Inl (UnauthorizedAccessException m)) =
     Unauthorized ''Unauthorized access''"
| "ExceptionMiddleware isDevelopment (Inl (ArgumentException m)) = BadRequest m"
| "ExceptionMiddleware isDevelopment (Inl ex) =
     InternalServerError
       (if isDevelopment then Message ex
        else ''An unexpected error occurred. Please try again later.'')"


section \<open>Token validation\<close>

text \<open>The \<open>TokenValidationParameters\<close> that \<open>Program.cs\<close> hands to the JWT bearer handler.\<close>

record TokenValidationParameters =
  ValidateIssuer :: bool
  ValidateAudience :: bool
  ValidateLifetime :: bool
  ValidateIssuerSigningKey :: bool
  ValidIssuer :: string
  ValidAudience :: string
  IssuerSigningKey :: string
  ClockSkew :: int

definition ConfigureJwtBearer :: "JwtSettings \<Rightarrow> TokenValidationParameters" where
  "ConfigureJwtBearer jwtSettings =
     \<lparr>ValidateIssuer = True,
      ValidateAudience = True,
      ValidateLifetime = True,
      ValidateIssuerSigningKey = True,
      ValidIssuer = JwtSettings.Issuer jwtSettings,
      ValidAudience = JwtSettings.Audience jwtSettings,
      IssuerSigningKey = SecretKey jwtSettings,
      ClockSkew = 0\<rparr>"

datatype TokenError = Malformed | Invalid | Expired

text \<open>
  Modelled from the spec: the validation of a presented token, which the source
  leaves to the JWT bearer handler of the framework (the source only configures it,
  with the parameters above). A token that does not parse (\<open>None\<close>) is malformed; a
  signature that does not match the server's key is invalid; with lifetime
  validation on, a token is expired when the current time is past its expiry by
  more than the clock skew; a wrong issuer or audience is invalid; otherwise the
  result is the user id of the subject claim.
\<close>

definition ValidateToken ::
  "TokenValidationParameters \<Rightarrow> DateTime \<Rightarrow> JwtSecurityToken option \<Rightarrow> TokenError + int" where
  "ValidateToken parameters now presented =
     (case presented of
        None \<Rightarrow> Inl Malformed
      | Some token \<Rightarrow>
          if SigningKey token \<noteq> IssuerSigningKey parameters then Inl Invalid
          else if ValidateLifetime parameters \<and> ValidTo token + ClockSkew parameters < now
               then Inl Expired
          else if ValidateIssuer parameters \<and> JwtSecurityToken.Issuer token \<noteq> ValidIssuer parameters
               then Inl Invalid
          else if ValidateAudience parameters \<and>
                  JwtSecurityToken.Audience token \<noteq> ValidAudience parameters
               then Inl Invalid
          else Inr (NameIdentifier token))"


section \<open>Filters and orderings as predicates\<close>

text \<open>
  The conditions of the \<open>Where\<close> clauses that \<open>ApplyFilters\<close> adds, as one predicate
  on a row: the conjunction, over the supplied parameters, of the condition of each
  clause, the search condition with the lowerings of the source.
\<close>

definition PassesFilters :: "TaskQueryParams \<Rightarrow> TodoTask \<Rightarrow> bool" where
  "PassesFilters queryParams t =
     (Nullable (\<lambda>v. TodoTask.IsCompleted t = v) (TaskQueryParams.IsCompleted queryParams) \<and>
      Nullable (\<lambda>v. TodoTask.Priority t = v) (TaskQueryParams.Priority queryParams) \<and>
      Nullable (\<lambda>v. case TodoTask.DueDate t of None \<Rightarrow> False | Some d \<Rightarrow> d \<le> v)
        (DueBefore queryParams) \<and>
      Nullable (\<lambda>v. case TodoTask.DueDate t of None \<Rightarrow> False | Some d \<Rightarrow> v \<le> d)
        (DueAfter queryParams) \<and>
      (IsNullOrWhiteSpace (Search queryParams) \<or>
       (case Search queryParams of
          None \<Rightarrow> False
        | Some s \<Rightarrow>
            Contains (StoreLower (TodoTask.Title t)) (ToLower s) \<or>
            (case TodoTask.Description t of
               None \<Rightarrow> False
             | Some d \<Rightarrow> Contains (StoreLower d) (ToLower s)))))"





text \<open>
  Nulls last: of any two tasks of the list, in their order, the later one has no due
  date if the earlier one has none; so no task with a due date comes after a task
  without one. Nulls first: the same with the two roles exchanged.
\<close>

definition NullDueDatesLast :: "TodoTask list \<Rightarrow> bool" where
  "NullDueDatesLast ts =
     sorted_wrt (\<lambda>a b. TodoTask.DueDate a = None \<longrightarrow> TodoTask.DueDate b = None) ts"

definition NullDueDatesFirst :: "TodoTask list \<Rightarrow> bool" where
  "NullDueDatesFirst ts =
     sorted_wrt (\<lambda>a b. TodoTask.DueDate b = None \<longrightarrow> TodoTask.DueDate a = None) ts"


section \<open>Example data\<close>

text \<open>
  A small store used to instantiate the theorems below: two users, three tasks, and
  a stand-in for BCrypt whose hash of a password is the password after a salt prefix.
\<close>

definition runtime_example :: Runtime where
  "runtime_example =
     \<lparr>UtcNow = 1000,
      HashPassword = (\<lambda>password. ''$2a$11$'' @ password),
      Verify = (\<lambda>password hash. hash = ''$2a$11$'' @ password),
      NewGuid = ''6f9619ff-8b86-d011-b42d-00c04fc964ff'',
      IsDevelopment = False\<rparr>"

definition settings_example :: JwtSettings where
  "settings_example = DefaultJwtSettings\<lparr>SecretKey := ''0123456789abcdef0123456789abcdef''\<rparr>"

definition user_alice :: User where
  "user_alice =
     \<lparr>User.Id = 10, User.Email = ''alice@example.com'',
      PasswordHash = ''$2a$11$correct horse'', User.CreatedAt = 50\<rparr>"

definition user_bob :: User where
  "user_bob =
     \<lparr>User.Id = 20, User.Email = ''bob@example.com'',
      PasswordHash = ''$2a$11$battery staple'', User.CreatedAt = 60\<rparr>"

definition task_milk :: TodoTask where
  "task_milk =
     \<lparr>TodoTask.Id = 1, TodoTask.UserId = 10, TodoTask.Title = ''Buy milk'',
      TodoTask.Description = Some ''Two litres'', TodoTask.DueDate = Some 500,
      TodoTask.Priority = 1, TodoTask.IsCompleted = False, TodoTask.CreatedAt = 100,
      TodoTask.UpdatedAt = None\<rparr>"

definition task_report :: TodoTask where
  "task_report =
     \<lparr>TodoTask.Id = 2, TodoTask.UserId = 20, TodoTask.Title = ''Write report'',
      TodoTask.Description = None, TodoTask.DueDate = None,
      TodoTask.Priority = 2, TodoTask.IsCompleted = True, TodoTask.CreatedAt = 110,
      TodoTask.UpdatedAt = None\<rparr>"

definition task_call :: TodoTask where
  "task_call =
     \<lparr>TodoTask.Id = 3, TodoTask.UserId = 10, TodoTask.Title = ''Call Sam'',
      TodoTask.Description = None, TodoTask.DueDate = None,
      TodoTask.Priority = 2, TodoTask.IsCompleted = True, TodoTask.CreatedAt = 120,
      TodoTask.UpdatedAt = None\<rparr>"

definition ctx_example :: AppDbContext where
  "ctx_example =
     \<lparr>Users = [user_alice, user_bob], AppDbContext.Tasks = [task_milk, task_report, task_call]\<rparr>"

definition update_priority_high :: UpdateTaskRequest where
  "update_priority_high =
     \<lparr>UpdateTaskRequest.Title = None, UpdateTaskRequest.Description = None,
      UpdateTaskRequest.DueDate = None, UpdateTaskRequest.Priority = Some 3,
      UpdateTaskRequest.IsCompleted = None\<rparr>"

definition query_dueDate_asc :: TaskQueryParams where
  "query_dueDate_asc =
     \<lparr>TaskQueryParams.IsCompleted = None, TaskQueryParams.Priority = None, DueBefore = None,
      DueAfter = None, Search = None, SortBy = ''dueDate'', SortDirection = ''asc''\<rparr>"

definition query_dueDate_desc :: TaskQueryParams where
  "query_dueDate_desc = query_dueDate_asc\<lparr>SortDirection := ''desc''\<rparr>"

definition create_milk :: CreateTaskRequest where
  "create_milk =
     \<lparr>CreateTaskRequest.Title = ''  Buy milk '', CreateTaskRequest.Description = None,
      CreateTaskRequest.DueDate = None, CreateTaskRequest.Priority = 1\<rparr>"

definition create_blank :: CreateTaskRequest where
  "create_blank = create_milk\<lparr>CreateTaskRequest.Title := ''   ''\<rparr>"


definition login_unknown :: LoginRequest where
  "login_unknown =
     \<lparr>LoginRequest.Email = ''carol@example.com'', LoginRequest.Password = ''correct horse''\<rparr>"

definition login_wrong_password :: LoginRequest where
  "login_wrong_password =
     \<lparr>LoginRequest.Email = ''Alice@Example.com'', LoginRequest.Password = ''wrong horse''\<rparr>"

definition register_carol :: RegisterRequest where
  "register_carol =
     \<lparr>RegisterRequest.Email = ''carol@example.com'',
      RegisterRequest.Password = ''troubadour'', ConfirmPassword = ''troubadour''\<rparr>"

text \<open>
  A second registration of the same normalized email that commits while the first
  is between its existence check and its insert.
\<close>

definition concurrent_registration :: "AppDbContext \<Rightarrow> AppDbContext" where
  "concurrent_registration ctx =
     ctx\<lparr>Users := Users ctx @
           [\<lparr>User.Id = NextId (map User.Id (Users ctx)), User.Email = ''carol@example.com'',
             PasswordHash = ''$2a$11$xkcd 936'', User.CreatedAt = 999\<rparr>]\<rparr>"






section \<open>Properties of the task service\<close>

lemmas lower_case_eval =
  ToLower_def ToLowerChar_def StoreLower_def StoreLowerChar_def AsciiLower_def Latin1Lower_def
  Latin1Capitals_def

subsection \<open>Looking a task up by id and owner\<close>

lemma GetUserTask_Some:
  "GetUserTaskAsync ctx u i = Some t \<Longrightarrow>
     t \<in> set (AppDbContext.Tasks ctx) \<and> TodoTask.Id t = i \<and> TodoTask.UserId t = u"
  unfolding GetUserTaskAsync_def by (auto simp: find_Some_iff)

lemma GetUserTask_absent:
  "i \<notin> TodoTask.Id ` set (AppDbContext.Tasks ctx) \<Longrightarrow> GetUserTaskAsync ctx u i = None"
  unfolding GetUserTaskAsync_def by (auto simp: find_None_iff)

lemma key_determines_row:
  "distinct (map f xs) \<Longrightarrow> x \<in> set xs \<Longrightarrow> y \<in> set xs \<Longrightarrow> f x = f y \<Longrightarrow> x = y"
  by (meson distinct_map inj_onD)

lemma GetUserTask_of_row:
  assumes "distinct (map TodoTask.Id (AppDbContext.Tasks ctx))"
      and "t \<in> set (AppDbContext.Tasks ctx)"
  shows "GetUserTaskAsync ctx u (TodoTask.Id t) = (if u = TodoTask.UserId t then Some t else None)"
proof (cases "GetUserTaskAsync ctx u (TodoTask.Id t)")
  case None
  then show ?thesis
    using assms(2) unfolding GetUserTaskAsync_def by (auto simp: find_None_iff)
next
  case (Some t')
  then have "t' \<in> set (AppDbContext.Tasks ctx)" "TodoTask.Id t' = TodoTask.Id t"
    and owner: "TodoTask.UserId t' = u"
    using GetUserTask_Some by blast+
  then have "t' = t"
    using assms key_determines_row by metis
  then show ?thesis
    using Some owner by simp
qed

subsection \<open>Writing a modified row\<close>

lemma ApplyUpdate_fields:
  "TodoTask.Id (ApplyUpdate now task request) = TodoTask.Id task"
  "TodoTask.UserId (ApplyUpdate now task request) = TodoTask.UserId task"
  "TodoTask.CreatedAt (ApplyUpdate now task request) = TodoTask.CreatedAt task"
  "TodoTask.UpdatedAt (ApplyUpdate now task request) = Some now"
  "TodoTask.Title (ApplyUpdate now task request) =
     (case UpdateTaskRequest.Title request of
        None \<Rightarrow> TodoTask.Title task | Some v \<Rightarrow> Trim v)"
  "TodoTask.Description (ApplyUpdate now task request) =
     (case UpdateTaskRequest.Description request of
        None \<Rightarrow> TodoTask.Description task | Some v \<Rightarrow> Some (Trim v))"
  "TodoTask.DueDate (ApplyUpdate now task request) =
     (case UpdateTaskRequest.DueDate request of
        None \<Rightarrow> TodoTask.DueDate task | Some v \<Rightarrow> Some v)"
  "TodoTask.Priority (ApplyUpdate now task request) =
     (case UpdateTaskRequest.Priority request of
        None \<Rightarrow> TodoTask.Priority task | Some v \<Rightarrow> v)"
  "TodoTask.IsCompleted (ApplyUpdate now task request) =
     (case UpdateTaskRequest.IsCompleted request of
        None \<Rightarrow> TodoTask.IsCompleted task | Some v \<Rightarrow> v)"
  by (simp_all add: ApplyUpdate_def Let_def split: option.splits)

lemma find_in_rewritten_rows:
  assumes "\<exists>t\<in>set xs. TodoTask.Id t = i" "TodoTask.Id t' = i" "TodoTask.UserId t' = u"
  shows "find (\<lambda>t. TodoTask.Id t = i \<and> TodoTask.UserId t = u)
           (map (\<lambda>t. if TodoTask.Id t = TodoTask.Id t' then t' else t) xs) = Some t'"
  using assms by (induction xs) auto

lemma other_rows_kept:
  "TodoTask.Id t' = i \<Longrightarrow>
   filter (\<lambda>t. TodoTask.Id t \<noteq> i)
     (map (\<lambda>t. if TodoTask.Id t = TodoTask.Id t' then t' else t) xs) =
   filter (\<lambda>t. TodoTask.Id t \<noteq> i) xs"
  by (induction xs) auto

lemma GetUserTask_SaveModifiedTask:
  assumes "GetUserTaskAsync ctx u i = Some t" "TodoTask.Id t' = i" "TodoTask.UserId t' = u"
  shows "GetUserTaskAsync (SaveModifiedTask ctx t') u i = Some t'"
proof -
  have "\<exists>x\<in>set (AppDbContext.Tasks ctx). TodoTask.Id x = i"
    using GetUserTask_Some [OF assms(1)] by blast
  then show ?thesis
    unfolding GetUserTaskAsync_def SaveModifiedTask_def
    using find_in_rewritten_rows [OF _ assms(2,3)] by simp
qed

lemma example_lookup_milk: "GetUserTaskAsync ctx_example 10 1 = Some task_milk"
  by (simp add: GetUserTaskAsync_def ctx_example_def task_milk_def)

lemma example_update_valid: "IsValidUpdateTaskRequest update_priority_high"
  by (simp add: IsValidUpdateTaskRequest_def update_priority_high_def Nullable_def
      RangeAttribute_def)

subsection \<open>Partial update\<close>

text \<open>
  Claim C9. An update that is accepted (the request passes validation and the task
  is found under the caller's identity) answers 200 with the stored row, in which
  every field whose request value is absent keeps its prior value, every field
  whose request value is present takes it (title and description trimmed), and
  \<open>UpdatedAt\<close> is the current time. The key, the owner and the creation time are
  kept, and so is every other row of the store.
\<close>

theorem UpdateTask_partial_update:
  assumes "IsValidUpdateTaskRequest request"
      and "GetUserTaskAsync ctx userId taskId = Some task"
  shows "\<exists>task' ctx'.
           UpdateTask now ctx userId taskId request = (Ok (MapToResponse task'), ctx') \<and>
           GetUserTaskAsync ctx' userId taskId = Some task' \<and>
           TodoTask.UpdatedAt task' = Some now \<and>
           TodoTask.Title task' =
             (case UpdateTaskRequest.Title request of
                None \<Rightarrow> TodoTask.Title task | Some v \<Rightarrow> Trim v) \<and>
           TodoTask.Description task' =
             (case UpdateTaskRequest.Description request of
                None \<Rightarrow> TodoTask.Description task | Some v \<Rightarrow> Some (Trim v)) \<and>
           TodoTask.DueDate task' =
             (case UpdateTaskRequest.DueDate request of
                None \<Rightarrow> TodoTask.DueDate task | Some v \<Rightarrow> Some v) \<and>
           TodoTask.Priority task' =
             (case UpdateTaskRequest.Priority request of
                None \<Rightarrow> TodoTask.Priority task | Some v \<Rightarrow> v) \<and>
           TodoTask.IsCompleted task' =
             (case UpdateTaskRequest.IsCompleted request of
                None \<Rightarrow> TodoTask.IsCompleted task | Some v \<Rightarrow> v) \<and>
           TodoTask.Id task' = TodoTask.Id task \<and>
           TodoTask.UserId task' = TodoTask.UserId task \<and>
           TodoTask.CreatedAt task' = TodoTask.CreatedAt task \<and>
           filter (\<lambda>t. TodoTask.Id t \<noteq> taskId) (AppDbContext.Tasks ctx') =
             filter (\<lambda>t. TodoTask.Id t \<noteq> taskId) (AppDbContext.Tasks ctx) \<and>
           Users ctx' = Users ctx"
proof -
  let ?t = "ApplyUpdate now task request"
  let ?c = "SaveModifiedTask ctx ?t"
  have own: "TodoTask.Id task = taskId" "TodoTask.UserId task = userId"
    using GetUserTask_Some [OF assms(2)] by simp_all
  have r: "UpdateTask now ctx userId taskId request = (Ok (MapToResponse ?t), ?c)"
    using assms by (simp add: UpdateTask_def UpdateTaskAsync_def Let_def)
  have g: "GetUserTaskAsync ?c userId taskId = Some ?t"
    using GetUserTask_SaveModifiedTask [OF assms(2)] own by (simp add: ApplyUpdate_fields)
  have o: "filter (\<lambda>t. TodoTask.Id t \<noteq> taskId) (AppDbContext.Tasks ?c) =
             filter (\<lambda>t. TodoTask.Id t \<noteq> taskId) (AppDbContext.Tasks ctx)"
    unfolding SaveModifiedTask_def using other_rows_kept [of ?t taskId] own
    by (simp add: ApplyUpdate_fields)
  have u: "Users ?c = Users ctx"
    by (simp add: SaveModifiedTask_def)
  show ?thesis
    using r g o u ApplyUpdate_fields [of now task request] by blast
qed

text \<open>
  The scenario of the specification: the partial update \<open>{priority: 3}\<close> of the task
  ``Buy milk'' leaves its title, description and due date as they were, sets the
  priority to 3 (label ``High'') and stamps \<open>UpdatedAt\<close>.
\<close>

theorem UpdateTask_partial_update_witness:
  "\<exists>task' ctx'.
     UpdateTask 900 ctx_example 10 1 update_priority_high = (Ok (MapToResponse task'), ctx') \<and>
     GetUserTaskAsync ctx' 10 1 = Some task' \<and>
     TodoTask.Title task' = ''Buy milk'' \<and>
     TodoTask.Description task' = Some ''Two litres'' \<and>
     TodoTask.DueDate task' = Some 500 \<and>
     TodoTask.Priority task' = 3 \<and>
     PriorityLabel (MapToResponse task') = ''High'' \<and>
     TodoTask.IsCompleted task' = False \<and>
     TodoTask.UpdatedAt task' = Some 900"
proof -
  obtain task' ctx' where
    r: "UpdateTask 900 ctx_example 10 1 update_priority_high = (Ok (MapToResponse task'), ctx')"
    and g: "GetUserTaskAsync ctx' 10 1 = Some task'"
    and f: "TodoTask.UpdatedAt task' = Some 900"
      "TodoTask.Title task' =
         (case UpdateTaskRequest.Title update_priority_high of
            None \<Rightarrow> TodoTask.Title task_milk | Some v \<Rightarrow> Trim v)"
      "TodoTask.Description task' =
         (case UpdateTaskRequest.Description update_priority_high of
            None \<Rightarrow> TodoTask.Description task_milk | Some v \<Rightarrow> Some (Trim v))"
      "TodoTask.DueDate task' =
         (case UpdateTaskRequest.DueDate update_priority_high of
            None \<Rightarrow> TodoTask.DueDate task_milk | Some v \<Rightarrow> Some v)"
      "TodoTask.Priority task' =
         (case UpdateTaskRequest.Priority update_priority_high of
            None \<Rightarrow> TodoTask.Priority task_milk | Some v \<Rightarrow> v)"
      "TodoTask.IsCompleted task' =
         (case UpdateTaskRequest.IsCompleted update_priority_high of
            None \<Rightarrow> TodoTask.IsCompleted task_milk | Some v \<Rightarrow> v)"
    using UpdateTask_partial_update [OF example_update_valid example_lookup_milk, of 900]
    by blast
  have l: "PriorityLabel (MapToResponse task') = ''High''"
    using f(5) by (simp add: PriorityLabel_def MapToResponse_def update_priority_high_def)
  show ?thesis
    using r g f l by (auto simp: update_priority_high_def task_milk_def)
qed


subsection \<open>Null request fields\<close>

text \<open>
  Claim C10. A null request field is an absent one, so no update clears a field:
  when the task is not found under the caller's identity nothing is written; when
  it is found, the stored row after the update keeps its due date if the request's
  \<open>DueDate\<close> is null, its description if \<open>Description\<close> is null and its title if
  \<open>Title\<close> is null, and for any request at all a row that had a due date (a
  description) still has one afterwards.
\<close>

theorem UpdateTaskAsync_null_keeps_field:
  "(GetUserTaskAsync ctx userId taskId = None \<longrightarrow>
      UpdateTaskAsync now ctx userId taskId request = (None, ctx)) \<and>
   (\<forall>task. GetUserTaskAsync ctx userId taskId = Some task \<longrightarrow>
      (\<exists>task' ctx'.
         UpdateTaskAsync now ctx userId taskId request = (Some (MapToResponse task'), ctx') \<and>
         GetUserTaskAsync ctx' userId taskId = Some task' \<and>
         (UpdateTaskRequest.DueDate request = None \<longrightarrow> TodoTask.DueDate task' = TodoTask.DueDate task) \<and>
         (UpdateTaskRequest.Description request = None \<longrightarrow>
            TodoTask.Description task' = TodoTask.Description task) \<and>
         (UpdateTaskRequest.Title request = None \<longrightarrow> TodoTask.Title task' = TodoTask.Title task) \<and>
         (TodoTask.DueDate task \<noteq> None \<longrightarrow> TodoTask.DueDate task' \<noteq> None) \<and>
         (TodoTask.Description task \<noteq> None \<longrightarrow> TodoTask.Description task' \<noteq> None)))"
proof (intro conjI allI impI)
  assume "GetUserTaskAsync ctx userId taskId = None"
  then show "UpdateTaskAsync now ctx userId taskId request = (None, ctx)"
    by (simp add: UpdateTaskAsync_def)
next
  fix task
  assume f: "GetUserTaskAsync ctx userId taskId = Some task"
  let ?t = "ApplyUpdate now task request"
  let ?c = "SaveModifiedTask ctx ?t"
  have own: "TodoTask.Id task = taskId" "TodoTask.UserId task = userId"
    using GetUserTask_Some [OF f] by simp_all
  have r: "UpdateTaskAsync now ctx userId taskId request = (Some (MapToResponse ?t), ?c)"
    using f by (simp add: UpdateTaskAsync_def Let_def)
  have g: "GetUserTaskAsync ?c userId taskId = Some ?t"
    using GetUserTask_SaveModifiedTask [OF f] own by (simp add: ApplyUpdate_fields)
  have k: "UpdateTaskRequest.DueDate request = None \<longrightarrow> TodoTask.DueDate ?t = TodoTask.DueDate task"
    "UpdateTaskRequest.Description request = None \<longrightarrow> TodoTask.Description ?t = TodoTask.Description task"
    "UpdateTaskRequest.Title request = None \<longrightarrow> TodoTask.Title ?t = TodoTask.Title task"
    "TodoTask.DueDate task \<noteq> None \<longrightarrow> TodoTask.DueDate ?t \<noteq> None"
    "TodoTask.Description task \<noteq> None \<longrightarrow> TodoTask.Description ?t \<noteq> None"
    by (simp_all add: ApplyUpdate_fields split: option.splits)
  show "\<exists>task' ctx'.
         UpdateTaskAsync now ctx userId taskId request = (Some (MapToResponse task'), ctx') \<and>
         GetUserTaskAsync ctx' userId taskId = Some task' \<and>
         (UpdateTaskRequest.DueDate request = None \<longrightarrow> TodoTask.DueDate task' = TodoTask.DueDate task) \<and>
         (UpdateTaskRequest.Description request = None \<longrightarrow>
            TodoTask.Description task' = TodoTask.Description task) \<and>
         (UpdateTaskRequest.Title request = None \<longrightarrow> TodoTask.Title task' = TodoTask.Title task) \<and>
         (TodoTask.DueDate task \<noteq> None \<longrightarrow> TodoTask.DueDate task' \<noteq> None) \<and>
         (TodoTask.Description task \<noteq> None \<longrightarrow> TodoTask.Description task' \<noteq> None)"
    by (rule exI [of _ ?t], rule exI [of _ ?c]) (intro conjI r g k)
qed

text \<open>
  On the example: the request \<open>{priority: 3}\<close> has a null due date, description and
  title, and the row of ``Buy milk'' keeps all three.
\<close>

theorem UpdateTaskAsync_null_keeps_field_witness:
  "\<exists>task' ctx'.
     UpdateTaskAsync 900 ctx_example 10 1 update_priority_high = (Some (MapToResponse task'), ctx') \<and>
     GetUserTaskAsync ctx' 10 1 = Some task' \<and>
     TodoTask.DueDate task' = Some 500 \<and>
     TodoTask.Description task' = Some ''Two litres'' \<and>
     TodoTask.Title task' = ''Buy milk''"
proof -
  have "\<exists>task' ctx'.
         UpdateTaskAsync 900 ctx_example 10 1 update_priority_high = (Some (MapToResponse task'), ctx') \<and>
         GetUserTaskAsync ctx' 10 1 = Some task' \<and>
         (UpdateTaskRequest.DueDate update_priority_high = None \<longrightarrow>
            TodoTask.DueDate task' = TodoTask.DueDate task_milk) \<and>
         (UpdateTaskRequest.Description update_priority_high = None \<longrightarrow>
            TodoTask.Description task' = TodoTask.Description task_milk) \<and>
         (UpdateTaskRequest.Title update_priority_high = None \<longrightarrow>
            TodoTask.Title task' = TodoTask.Title task_milk) \<and>
         (TodoTask.DueDate task_milk \<noteq> None \<longrightarrow> TodoTask.DueDate task' \<noteq> None) \<and>
         (TodoTask.Description task_milk \<noteq> None \<longrightarrow> TodoTask.Description task' \<noteq> None)"
    using UpdateTaskAsync_null_keeps_field [of ctx_example 10 1 900 update_priority_high] example_lookup_milk
    by blast
  then obtain task' ctx' where
    "UpdateTaskAsync 900 ctx_example 10 1 update_priority_high = (Some (MapToResponse task'), ctx')"
    "GetUserTaskAsync ctx' 10 1 = Some task'"
    "TodoTask.DueDate task' = Some 500"
    "TodoTask.Description task' = Some ''Two litres''"
    "TodoTask.Title task' = ''Buy milk''"
    by (auto simp: update_priority_high_def task_milk_def)
  then show ?thesis
    by blast
qed

subsection \<open>The filters as one predicate\<close>

lemma Where_optional:
  "(case p of None \<Rightarrow> xs | Some v \<Rightarrow> filter (P v) xs) = filter (\<lambda>t. Nullable (\<lambda>v. P v t) p) xs"
  by (cases p) (simp_all add: Nullable_def)

lemma due_before_iff:
  "(x \<noteq> None \<and> x \<le> Some v) = (case x of None \<Rightarrow> False | Some (d::int) \<Rightarrow> d \<le> v)"
  by (cases x) simp_all

lemma due_after_iff:
  "(x \<noteq> None \<and> Some v \<le> x) = (case x of None \<Rightarrow> False | Some (d::int) \<Rightarrow> v \<le> d)"
  by (cases x) simp_all

lemma Where_search:
  "(if \<not> IsNullOrWhiteSpace p
    then filter (\<lambda>t. Contains (StoreLower (TodoTask.Title t)) (ToLower (the p)) \<or>
                     (case TodoTask.Description t of
                        None \<Rightarrow> False
                      | Some d \<Rightarrow> Contains (StoreLower d) (ToLower (the p)))) xs
    else xs) =
   filter (\<lambda>t. IsNullOrWhiteSpace p \<or>
               (case p of
                  None \<Rightarrow> False
                | Some s \<Rightarrow>
                    Contains (StoreLower (TodoTask.Title t)) (ToLower s) \<or>
                    (case TodoTask.Description t of
                       None \<Rightarrow> False
                     | Some d \<Rightarrow> Contains (StoreLower d) (ToLower s)))) xs"
  by (cases p) (auto simp: IsNullOrWhiteSpace_def split: option.splits intro!: filter_cong)

lemma ApplyFilters_eq: "ApplyFilters query q = filter (PassesFilters q) query"
proof -
  have "ApplyFilters query q =
          filter (\<lambda>t. IsNullOrWhiteSpace (Search q) \<or>
               (case Search q of
                  None \<Rightarrow> False
                | Some s \<Rightarrow>
                    Contains (StoreLower (TodoTask.Title t)) (ToLower s) \<or>
                    (case TodoTask.Description t of
                       None \<Rightarrow> False
                     | Some d \<Rightarrow> Contains (StoreLower d) (ToLower s))))
           (filter (\<lambda>t. Nullable (\<lambda>v. case TodoTask.DueDate t of None \<Rightarrow> False | Some d \<Rightarrow> v \<le> d)
                          (DueAfter q))
             (filter (\<lambda>t. Nullable (\<lambda>v. case TodoTask.DueDate t of None \<Rightarrow> False | Some d \<Rightarrow> d \<le> v)
                            (DueBefore q))
               (filter (\<lambda>t. Nullable (\<lambda>v. TodoTask.Priority t = v) (TaskQueryParams.Priority q))
                 (filter (\<lambda>t. Nullable (\<lambda>v. TodoTask.IsCompleted t = v)
                                (TaskQueryParams.IsCompleted q)) query))))"
    by (simp only: ApplyFilters_def Let_def Where_search due_before_iff due_after_iff
        Where_optional)
  also have "\<dots> = filter (PassesFilters q) query"
    unfolding filter_filter PassesFilters_def by (rule filter_cong) auto
  finally show ?thesis .
qed






subsection \<open>Ordering\<close>

lemma mset_OrderBy: "mset (OrderBy f xs) = mset xs"
  by (simp add: OrderBy_def)

lemma mset_OrderByDescending: "mset (OrderByDescending f xs) = mset xs"
  by (simp add: OrderByDescending_def)

lemma mset_ApplySorting: "mset (ApplySorting query q) = mset query"
  by (simp add: ApplySorting_def Let_def mset_OrderBy mset_OrderByDescending)

lemma ascending_OrderBy: "sorted_wrt (\<lambda>a b. f a \<le> f b) (OrderBy f xs)"
  using sorted_sort_key [of f xs] by (simp add: OrderBy_def sorted_map)

lemma descending_OrderByDescending: "sorted_wrt (\<lambda>a b. f b \<le> f a) (OrderByDescending f xs)"
  using sorted_sort_key [of f "rev xs"]
  by (simp add: OrderByDescending_def sorted_map sorted_wrt_rev)

lemma le_None_iff: "(x::'a::linorder option) \<le> None \<longleftrightarrow> x = None"
  by (cases x) simp_all

lemma descending_nulls_last:
  assumes "sorted_wrt (\<lambda>a b. TodoTask.DueDate b \<le> TodoTask.DueDate a) ts"
  shows "NullDueDatesLast ts"
  unfolding NullDueDatesLast_def
  by (rule sorted_wrt_mono_rel [OF _ assms]) (auto simp: le_None_iff)

lemma ascending_nulls_first:
  assumes "sorted_wrt (\<lambda>a b. TodoTask.DueDate a \<le> TodoTask.DueDate b) ts"
  shows "NullDueDatesFirst ts"
  unfolding NullDueDatesFirst_def
  by (rule sorted_wrt_mono_rel [OF _ assms]) (auto simp: le_None_iff)

lemma NullDueDatesLast_positions:
  "NullDueDatesLast ts \<longleftrightarrow>
     (\<forall>i j. i < j \<longrightarrow> j < length ts \<longrightarrow> TodoTask.DueDate (ts ! i) = None \<longrightarrow>
            TodoTask.DueDate (ts ! j) = None)"
  by (simp add: NullDueDatesLast_def sorted_wrt_iff_nth_less)

lemma example_sorted_ascending:
  "ApplySorting [task_milk, task_report] query_dueDate_asc = [task_report, task_milk]"
  by (simp add: ApplySorting_def query_dueDate_asc_def lower_case_eval OrderBy_def
      task_milk_def task_report_def)

lemma example_sorted_descending:
  "ApplySorting [task_report, task_milk] query_dueDate_desc = [task_milk, task_report]"
  by (simp add: ApplySorting_def query_dueDate_desc_def query_dueDate_asc_def lower_case_eval
      OrderByDescending_def task_milk_def task_report_def)

text \<open>
  Claim C5, as it is stated (null due dates last under both directions), fails for
  the ascending direction: the task without a due date comes first.
\<close>

theorem dueDate_ascending_nulls_last_counterexample:
  "ToLower (SortBy query_dueDate_asc) = ''duedate'' \<and>
   ApplySorting [task_milk, task_report] query_dueDate_asc = [task_report, task_milk] \<and>
   \<not> NullDueDatesLast (ApplySorting [task_milk, task_report] query_dueDate_asc)"
  unfolding example_sorted_ascending
  by (simp add: NullDueDatesLast_def query_dueDate_asc_def lower_case_eval
      task_milk_def task_report_def)

text \<open>
  Claim C5, amended. Sorting by \<open>dueDate\<close> permutes the query and places the tasks
  without a due date after all tasks with one when the direction is \<open>desc\<close>, and
  before all of them for any other direction (\<open>asc\<close> included): null is the least
  key of the ordering.
\<close>

theorem ApplySorting_dueDate_null_placement:
  assumes "ToLower (SortBy q) = ''duedate''"
  shows "mset (ApplySorting query q) = mset query \<and>
         (if ToLower (SortDirection q) = ''desc''
          then NullDueDatesLast (ApplySorting query q)
          else NullDueDatesFirst (ApplySorting query q))"
  using assms descending_nulls_last [OF descending_OrderByDescending [of TodoTask.DueDate query]]
    ascending_nulls_first [OF ascending_OrderBy [of TodoTask.DueDate query]]
  by (simp add: mset_ApplySorting) (simp add: ApplySorting_def)

theorem ApplySorting_dueDate_null_placement_witness:
  "NullDueDatesFirst (ApplySorting [task_milk, task_report] query_dueDate_asc) \<and>
   NullDueDatesLast (ApplySorting [task_report, task_milk] query_dueDate_desc) \<and>
   ApplySorting [task_report, task_milk] query_dueDate_desc = [task_milk, task_report]"
proof -
  have a: "ToLower (SortBy query_dueDate_asc) = ''duedate''"
    by (simp add: query_dueDate_asc_def lower_case_eval)
  have d: "ToLower (SortBy query_dueDate_desc) = ''duedate''"
    by (simp add: query_dueDate_desc_def query_dueDate_asc_def lower_case_eval)
  have da: "ToLower (SortDirection query_dueDate_asc) \<noteq> ''desc''"
    by (simp add: query_dueDate_asc_def lower_case_eval)
  have dd: "ToLower (SortDirection query_dueDate_desc) = ''desc''"
    by (simp add: query_dueDate_desc_def query_dueDate_asc_def lower_case_eval)
  show ?thesis
    using ApplySorting_dueDate_null_placement [OF a, of "[task_milk, task_report]"]
      ApplySorting_dueDate_null_placement [OF d, of "[task_report, task_milk]"] da dd example_sorted_descending
    by simp
qed

subsection \<open>Counts\<close>






subsection \<open>Keys of the task table\<close>

text \<open>
  The ids of the task table are pairwise distinct (it is the primary key). Every
  write of the service keeps them so.
\<close>

lemma le_fold_max: "x \<in> set ids \<Longrightarrow> x \<le> fold max ids (a::int)"
proof (induction ids arbitrary: a)
  case Nil
  then show ?case by simp
next
  case (Cons y ys)
  have mono: "\<And>b. b \<le> fold max ys b"
  proof -
    fix b :: int
    show "b \<le> fold max ys b"
      by (induction ys arbitrary: b) (auto intro: order_trans [OF max.cobounded2])
  qed
  show ?case
  proof (cases "x = y")
    case True
    then show ?thesis
      using mono [of "max y a"] by simp
  next
    case False
    with Cons show ?thesis by simp
  qed
qed

lemma NextId_fresh: "NextId ids \<notin> set ids"
  using le_fold_max [of "NextId ids" ids 0] by (auto simp: NextId_def)

lemma SaveAddedTask_keys:
  "distinct (map TodoTask.Id (AppDbContext.Tasks ctx)) \<Longrightarrow>
   distinct (map TodoTask.Id (AppDbContext.Tasks (snd (SaveAddedTask ctx task))))"
  using NextId_fresh [of "map TodoTask.Id (AppDbContext.Tasks ctx)"]
  by (simp add: SaveAddedTask_def Let_def)

lemma SaveModifiedTask_keys:
  "map TodoTask.Id (AppDbContext.Tasks (SaveModifiedTask ctx task)) =
   map TodoTask.Id (AppDbContext.Tasks ctx)"
  by (simp add: SaveModifiedTask_def)

lemma SaveRemovedTask_keys:
  "distinct (map TodoTask.Id (AppDbContext.Tasks ctx)) \<Longrightarrow>
   distinct (map TodoTask.Id (AppDbContext.Tasks (SaveRemovedTask ctx task)))"
  by (simp add: SaveRemovedTask_def distinct_map_filter)

lemma task_service_keeps_keys:
  assumes "distinct (map TodoTask.Id (AppDbContext.Tasks ctx))"
  shows "distinct (map TodoTask.Id
           (AppDbContext.Tasks (snd (CreateTaskAsync now ctx userId create))))"
    and "distinct (map TodoTask.Id
           (AppDbContext.Tasks (snd (UpdateTaskAsync now ctx userId taskId update))))"
    and "distinct (map TodoTask.Id (AppDbContext.Tasks (snd (DeleteTaskAsync ctx userId taskId))))"
    and "distinct (map TodoTask.Id
           (AppDbContext.Tasks (snd (ToggleCompletionAsync now ctx userId taskId))))"
  using assms SaveAddedTask_keys [OF assms] SaveRemovedTask_keys [OF assms]
  by (simp_all add: CreateTaskAsync_def UpdateTaskAsync_def DeleteTaskAsync_def
      ToggleCompletionAsync_def Let_def SaveModifiedTask_keys split: option.splits)

subsection \<open>Tenant isolation\<close>

lemma set_GetTasksAsync:
  "set (TaskListResponse.Tasks (GetTasksAsync ctx userId q)) =
   MapToResponse `
     {t \<in> set (AppDbContext.Tasks ctx). TodoTask.UserId t = userId \<and> PassesFilters q t}"
proof -
  have "set (ApplySorting xs q) = set xs" for xs
    by (metis mset_ApplySorting set_mset_mset)
  then show ?thesis
    by (auto simp: GetTasksAsync_def Let_def ApplyFilters_eq)
qed

text \<open>With distinct keys, the row of a key is removed or rewritten and no other.\<close>

lemma SaveRemovedTask_row:
  assumes "distinct (map TodoTask.Id (AppDbContext.Tasks ctx))"
      and "task \<in> set (AppDbContext.Tasks ctx)"
  shows "SaveRemovedTask ctx task =
           ctx\<lparr>AppDbContext.Tasks := removeAll task (AppDbContext.Tasks ctx)\<rparr>"
proof -
  have "filter (\<lambda>t. TodoTask.Id t \<noteq> TodoTask.Id task) (AppDbContext.Tasks ctx) =
          filter (\<lambda>t. task \<noteq> t) (AppDbContext.Tasks ctx)"
    using key_determines_row [OF assms(1) _ assms(2)] by (intro filter_cong refl) auto
  then show ?thesis
    by (simp add: SaveRemovedTask_def removeAll_filter_not_eq)
qed

lemma SaveModifiedTask_row:
  assumes "distinct (map TodoTask.Id (AppDbContext.Tasks ctx))"
      and "task \<in> set (AppDbContext.Tasks ctx)"
      and "TodoTask.Id task' = TodoTask.Id task"
  shows "SaveModifiedTask ctx task' =
           ctx\<lparr>AppDbContext.Tasks :=
                 map (\<lambda>t. if t = task then task' else t) (AppDbContext.Tasks ctx)\<rparr>"
proof -
  have "map (\<lambda>t. if TodoTask.Id t = TodoTask.Id task' then task' else t) (AppDbContext.Tasks ctx) =
          map (\<lambda>t. if t = task then task' else t) (AppDbContext.Tasks ctx)"
    using key_determines_row [OF assms(1) _ assms(2)] assms(3) by (intro map_cong refl) auto
  then show ?thesis
    by (simp add: SaveModifiedTask_def)
qed

text \<open>
  Claim C1. In a store with distinct task ids, let \<open>task\<close> be a row, \<open>userB\<close> any
  user but its owner and \<open>absentId\<close> an id that no row has. Then no list call of
  \<open>userB\<close> returns a task with that id, under any query parameters; get, delete and
  toggle by \<open>userB\<close> on the task's id answer 404 ``Task not found'' and leave the
  store as it is, exactly as they do for \<open>absentId\<close>; update by \<open>userB\<close> answers
  the same for the task's id as for \<open>absentId\<close>, which is that 404 for a request
  that passes validation. The owner's calls on the task succeed and take effect:
  get answers 200 with the task; delete answers 204 and leaves the store without
  that row and with every other row; toggle and a valid update answer 200 with the
  changed task and leave the store with that row rewritten and every other row as
  it was; list returns the task whenever it passes the filters of the query.
\<close>

theorem tenant_isolation:
  assumes keys: "distinct (map TodoTask.Id (AppDbContext.Tasks ctx))"
      and row: "task \<in> set (AppDbContext.Tasks ctx)"
      and other: "userB \<noteq> TodoTask.UserId task"
      and absent: "absentId \<notin> TodoTask.Id ` set (AppDbContext.Tasks ctx)"
  shows "TodoTask.Id task \<notin> TaskResponse.Id ` set (TaskListResponse.Tasks (GetTasksAsync ctx userB q)) \<and>
         GetTask ctx userB (TodoTask.Id task) = NotFound ''Task not found'' \<and>
         GetTask ctx userB absentId = NotFound ''Task not found'' \<and>
         DeleteTask ctx userB (TodoTask.Id task) = (NotFound ''Task not found'', ctx) \<and>
         DeleteTask ctx userB absentId = (NotFound ''Task not found'', ctx) \<and>
         ToggleCompletion now ctx userB (TodoTask.Id task) = (NotFound ''Task not found'', ctx) \<and>
         ToggleCompletion now ctx userB absentId = (NotFound ''Task not found'', ctx) \<and>
         UpdateTask now ctx userB (TodoTask.Id task) request =
           UpdateTask now ctx userB absentId request \<and>
         (IsValidUpdateTaskRequest request \<longrightarrow>
            UpdateTask now ctx userB (TodoTask.Id task) request = (NotFound ''Task not found'', ctx)) \<and>
         GetTask ctx (TodoTask.UserId task) (TodoTask.Id task) = Ok (MapToResponse task) \<and>
         DeleteTask ctx (TodoTask.UserId task) (TodoTask.Id task) =
           (NoContent, ctx\<lparr>AppDbContext.Tasks := removeAll task (AppDbContext.Tasks ctx)\<rparr>) \<and>
         ToggleCompletion now ctx (TodoTask.UserId task) (TodoTask.Id task) =
           (Ok (MapToResponse (task\<lparr>TodoTask.IsCompleted := \<not> TodoTask.IsCompleted task,
                                     TodoTask.UpdatedAt := Some now\<rparr>)),
            ctx\<lparr>AppDbContext.Tasks :=
                  map (\<lambda>t. if t = task
                            then task\<lparr>TodoTask.IsCompleted := \<not> TodoTask.IsCompleted task,
                                      TodoTask.UpdatedAt := Some now\<rparr>
                            else t)
                    (AppDbContext.Tasks ctx)\<rparr>) \<and>
         (IsValidUpdateTaskRequest request \<longrightarrow>
            UpdateTask now ctx (TodoTask.UserId task) (TodoTask.Id task) request =
              (Ok (MapToResponse (ApplyUpdate now task request)),
               ctx\<lparr>AppDbContext.Tasks :=
                     map (\<lambda>t. if t = task then ApplyUpdate now task request else t)
                       (AppDbContext.Tasks ctx)\<rparr>)) \<and>
         (PassesFilters q task \<longrightarrow>
            MapToResponse task \<in>
              set (TaskListResponse.Tasks (GetTasksAsync ctx (TodoTask.UserId task) q)))"
proof -
  let ?toggled = "task\<lparr>TodoTask.IsCompleted := \<not> TodoTask.IsCompleted task,
                       TodoTask.UpdatedAt := Some now\<rparr>"
  have b: "GetUserTaskAsync ctx userB (TodoTask.Id task) = None"
    using GetUserTask_of_row [OF keys row, of userB] other by simp
  have n: "GetUserTaskAsync ctx userB absentId = None"
    using GetUserTask_absent [OF absent] .
  have a: "GetUserTaskAsync ctx (TodoTask.UserId task) (TodoTask.Id task) = Some task"
    using GetUserTask_of_row [OF keys row, of "TodoTask.UserId task"] by simp
  have l: "TodoTask.Id task \<notin> TaskResponse.Id ` set (TaskListResponse.Tasks (GetTasksAsync ctx userB q))"
  proof
    assume "TodoTask.Id task \<in> TaskResponse.Id ` set (TaskListResponse.Tasks (GetTasksAsync ctx userB q))"
    then obtain t where t: "t \<in> set (AppDbContext.Tasks ctx)" "TodoTask.UserId t = userB"
      "TodoTask.Id t = TodoTask.Id task"
      by (auto simp: set_GetTasksAsync MapToResponse_def)
    then have "t = task"
      using key_determines_row [OF keys t(1) row] by simp
    with t other show False by simp
  qed
  have m: "PassesFilters q task \<longrightarrow>
            MapToResponse task \<in>
              set (TaskListResponse.Tasks (GetTasksAsync ctx (TodoTask.UserId task) q))"
    using row by (simp add: set_GetTasksAsync)
  have d: "SaveRemovedTask ctx task =
             ctx\<lparr>AppDbContext.Tasks := removeAll task (AppDbContext.Tasks ctx)\<rparr>"
    by (rule SaveRemovedTask_row [OF keys row])
  have g: "SaveModifiedTask ctx ?toggled =
             ctx\<lparr>AppDbContext.Tasks :=
                   map (\<lambda>t. if t = task then ?toggled else t) (AppDbContext.Tasks ctx)\<rparr>"
    by (rule SaveModifiedTask_row [OF keys row]) simp
  have u: "SaveModifiedTask ctx (ApplyUpdate now task request) =
             ctx\<lparr>AppDbContext.Tasks :=
                   map (\<lambda>t. if t = task then ApplyUpdate now task request else t)
                     (AppDbContext.Tasks ctx)\<rparr>"
    by (rule SaveModifiedTask_row [OF keys row]) (simp add: ApplyUpdate_fields)
  show ?thesis
    using l m
    by (simp add: GetTask_def GetTaskByIdAsync_def DeleteTask_def DeleteTaskAsync_def
        ToggleCompletion_def ToggleCompletionAsync_def UpdateTask_def UpdateTaskAsync_def
        Let_def a b n d g u)
qed

text \<open>
  On the example: user 10 and the task of user 20 with id 2; no task has id 99.
  The owner's delete leaves the two tasks of user 10; the owner's toggle and update
  rewrite the second row.
\<close>

theorem tenant_isolation_witness:
  "2 \<notin> TaskResponse.Id ` set (TaskListResponse.Tasks (GetTasksAsync ctx_example 10 query_dueDate_asc)) \<and>
   GetTask ctx_example 10 2 = NotFound ''Task not found'' \<and>
   GetTask ctx_example 10 99 = NotFound ''Task not found'' \<and>
   DeleteTask ctx_example 10 2 = (NotFound ''Task not found'', ctx_example) \<and>
   ToggleCompletion 900 ctx_example 10 2 = (NotFound ''Task not found'', ctx_example) \<and>
   UpdateTask 900 ctx_example 10 2 update_priority_high = (NotFound ''Task not found'', ctx_example) \<and>
   UpdateTask 900 ctx_example 10 99 update_priority_high = (NotFound ''Task not found'', ctx_example) \<and>
   GetTask ctx_example 20 2 = Ok (MapToResponse task_report) \<and>
   DeleteTask ctx_example 20 2 =
     (NoContent, ctx_example\<lparr>AppDbContext.Tasks := [task_milk, task_call]\<rparr>) \<and>
   ToggleCompletion 900 ctx_example 20 2 =
     (Ok (MapToResponse (task_report\<lparr>TodoTask.IsCompleted := False,
                                      TodoTask.UpdatedAt := Some 900\<rparr>)),
      ctx_example\<lparr>AppDbContext.Tasks :=
        [task_milk,
         task_report\<lparr>TodoTask.IsCompleted := False, TodoTask.UpdatedAt := Some 900\<rparr>,
         task_call]\<rparr>) \<and>
   UpdateTask 900 ctx_example 20 2 update_priority_high =
     (Ok (MapToResponse (task_report\<lparr>TodoTask.Priority := 3, TodoTask.UpdatedAt := Some 900\<rparr>)),
      ctx_example\<lparr>AppDbContext.Tasks :=
        [task_milk,
         task_report\<lparr>TodoTask.Priority := 3, TodoTask.UpdatedAt := Some 900\<rparr>,
         task_call]\<rparr>) \<and>
   MapToResponse task_report \<in>
     set (TaskListResponse.Tasks (GetTasksAsync ctx_example 20 query_dueDate_asc))"
proof -
  have keys: "distinct (map TodoTask.Id (AppDbContext.Tasks ctx_example))"
    by (simp add: ctx_example_def task_milk_def task_report_def task_call_def)
  have row: "task_report \<in> set (AppDbContext.Tasks ctx_example)"
    by (simp add: ctx_example_def)
  have other: "10 \<noteq> TodoTask.UserId task_report"
    by (simp add: task_report_def)
  have absent: "99 \<notin> TodoTask.Id ` set (AppDbContext.Tasks ctx_example)"
    by (simp add: ctx_example_def task_milk_def task_report_def task_call_def)
  have m: "PassesFilters query_dueDate_asc task_report"
    by (simp add: PassesFilters_def query_dueDate_asc_def Nullable_def IsNullOrWhiteSpace_def)
  have i: "TodoTask.Id task_report = 2" "TodoTask.UserId task_report = 20"
    "TodoTask.IsCompleted task_report = True"
    by (simp_all add: task_report_def)
  have rows: "removeAll task_report (AppDbContext.Tasks ctx_example) = [task_milk, task_call]"
    "map (\<lambda>t. if t = task_report then x else t) (AppDbContext.Tasks ctx_example) =
       [task_milk, x, task_call]" for x
    by (simp_all add: ctx_example_def task_milk_def task_report_def task_call_def)
  have upd: "ApplyUpdate 900 task_report update_priority_high =
               task_report\<lparr>TodoTask.Priority := 3, TodoTask.UpdatedAt := Some 900\<rparr>"
    by (simp add: ApplyUpdate_def update_priority_high_def)
  show ?thesis
    using tenant_isolation [OF keys row other absent, of query_dueDate_asc 900 update_priority_high]
      m example_update_valid
    by (auto simp: i rows upd)
qed

subsection \<open>Creating a task\<close>

lemma Trim_empty_iff: "Trim s = [] \<longleftrightarrow> list_all IsWhiteSpace s"
proof -
  have "Trim s = [] \<longleftrightarrow> (\<forall>c\<in>set (dropWhile IsWhiteSpace s). IsWhiteSpace c)"
    by (simp add: Trim_def)
  also have "\<dots> \<longleftrightarrow> dropWhile IsWhiteSpace s = []"
  proof
    assume a: "\<forall>c\<in>set (dropWhile IsWhiteSpace s). IsWhiteSpace c"
    show "dropWhile IsWhiteSpace s = []"
    proof (rule ccontr)
      assume n: "dropWhile IsWhiteSpace s \<noteq> []"
      then have "\<not> IsWhiteSpace (hd (dropWhile IsWhiteSpace s))"
        by (rule hd_dropWhile)
      with a n show False by simp
    qed
  qed (auto dest: set_dropWhileD)
  also have "\<dots> \<longleftrightarrow> list_all IsWhiteSpace s"
    by (simp add: list_all_iff)
  finally show ?thesis .
qed

lemma length_Trim: "length (Trim s) \<le> length s"
proof -
  have "length (Trim s) \<le> length (dropWhile IsWhiteSpace s)"
    unfolding Trim_def using length_dropWhile_le [of IsWhiteSpace "rev (dropWhile IsWhiteSpace s)"]
    by simp
  also have "\<dots> \<le> length s" by (rule length_dropWhile_le)
  finally show ?thesis .
qed

lemma Trim_milk: "Trim ''  Buy milk '' = ''Buy milk''"
  by (simp add: Trim_def IsWhiteSpace_def)

text \<open>
  Claim C8. For every create request the row that \<open>CreateTaskAsync\<close> stores has the
  request title with the surrounding white space trimmed. A request whose title is
  empty after trimming (white space only, in particular) and a request whose title
  is longer than 200 characters are answered with the validation failure and store
  nothing. A request that passes validation is answered 201 with the stored task,
  whose title is non-empty and at most 200 characters long.
\<close>

theorem CreateTask_title_trimmed_and_required:
  "(\<exists>task. CreateTaskAsync now ctx userId request =
             (MapToResponse task, ctx\<lparr>AppDbContext.Tasks := AppDbContext.Tasks ctx @ [task]\<rparr>) \<and>
           TodoTask.Title task = Trim (CreateTaskRequest.Title request)) \<and>
   (Trim (CreateTaskRequest.Title request) = [] \<longrightarrow>
      CreateTask now ctx userId request = (ValidationProblem, ctx)) \<and>
   (200 < length (CreateTaskRequest.Title request) \<longrightarrow>
      CreateTask now ctx userId request = (ValidationProblem, ctx)) \<and>
   (IsValidCreateTaskRequest request \<longrightarrow>
      CreateTask now ctx userId request =
        (CreatedAtAction (fst (CreateTaskAsync now ctx userId request)),
         snd (CreateTaskAsync now ctx userId request)) \<and>
      Trim (CreateTaskRequest.Title request) \<noteq> [] \<and>
      length (Trim (CreateTaskRequest.Title request)) \<le> 200)"
proof -
  have a: "\<exists>task. CreateTaskAsync now ctx userId request =
             (MapToResponse task, ctx\<lparr>AppDbContext.Tasks := AppDbContext.Tasks ctx @ [task]\<rparr>) \<and>
           TodoTask.Title task = Trim (CreateTaskRequest.Title request)"
    unfolding CreateTaskAsync_def SaveAddedTask_def Let_def fst_conv snd_conv
    by (intro exI conjI, rule refl) simp
  have b: "Trim (CreateTaskRequest.Title request) = [] \<Longrightarrow> \<not> IsValidCreateTaskRequest request"
    by (simp add: Trim_empty_iff IsValidCreateTaskRequest_def RequiredAttribute_def
        IsNullOrWhiteSpace_def)
  have c: "200 < length (CreateTaskRequest.Title request) \<Longrightarrow> \<not> IsValidCreateTaskRequest request"
    by (simp add: IsValidCreateTaskRequest_def MaxLengthAttribute_def)
  have d: "IsValidCreateTaskRequest request \<Longrightarrow> length (Trim (CreateTaskRequest.Title request)) \<le> 200"
    using length_Trim [of "CreateTaskRequest.Title request"]
    by (simp add: IsValidCreateTaskRequest_def MaxLengthAttribute_def)
  show ?thesis
    using a b c d by (auto simp: CreateTask_def Let_def)
qed

text \<open>
  On the example: the title \<open>"  Buy milk "\<close> is stored as \<open>"Buy milk"\<close>; a title of three
  spaces is rejected.
\<close>

theorem CreateTask_title_trimmed_and_required_witness:
  "(\<exists>task. CreateTaskAsync 100 ctx_example 10 create_milk =
            (MapToResponse task, ctx_example\<lparr>AppDbContext.Tasks := AppDbContext.Tasks ctx_example @ [task]\<rparr>) \<and>
          TodoTask.Title task = ''Buy milk'') \<and>
   IsValidCreateTaskRequest create_milk \<and>
   CreateTask 100 ctx_example 10 create_milk =
     (CreatedAtAction (fst (CreateTaskAsync 100 ctx_example 10 create_milk)),
      snd (CreateTaskAsync 100 ctx_example 10 create_milk)) \<and>
   Trim (CreateTaskRequest.Title create_blank) = [] \<and>
   CreateTask 100 ctx_example 10 create_blank = (ValidationProblem, ctx_example)"
proof -
  have v: "IsValidCreateTaskRequest create_milk"
    by (simp add: IsValidCreateTaskRequest_def create_milk_def RequiredAttribute_def
        IsNullOrWhiteSpace_def IsWhiteSpace_def MaxLengthAttribute_def Nullable_def
        RangeAttribute_def)
  have b: "Trim (CreateTaskRequest.Title create_blank) = []"
    by (simp add: create_blank_def Trim_def IsWhiteSpace_def)
  have m: "Trim (CreateTaskRequest.Title create_milk) = ''Buy milk''"
    by (simp add: create_milk_def Trim_milk)
  show ?thesis
    using CreateTask_title_trimmed_and_required [of 100 ctx_example 10 create_milk]
      CreateTask_title_trimmed_and_required [of 100 ctx_example 10 create_blank] v b m
    by simp
qed


section \<open>Properties of the authentication service\<close>

subsection \<open>The example requests\<close>

lemma ToLower_examples:
  "ToLower ''carol@example.com'' = ''carol@example.com''"
  "ToLower ''Alice@Example.com'' = ''alice@example.com''"
  by (simp_all add: lower_case_eval)

lemma Trim_examples:
  "Trim ''carol@example.com'' = ''carol@example.com''"
  "Trim ''alice@example.com'' = ''alice@example.com''"
  by (simp_all add: Trim_def IsWhiteSpace_def)

lemma example_lookup_unknown:
  "find (\<lambda>u. User.Email u = Trim (ToLower (LoginRequest.Email login_unknown))) (Users ctx_example) = None"
  by (simp add: login_unknown_def ToLower_examples Trim_examples ctx_example_def user_alice_def
      user_bob_def)

lemma example_lookup_alice:
  "find (\<lambda>u. User.Email u = Trim (ToLower (LoginRequest.Email login_wrong_password)))
     (Users ctx_example) = Some user_alice"
  by (simp add: login_wrong_password_def ToLower_examples Trim_examples ctx_example_def
      user_alice_def)

lemma example_wrong_password:
  "\<not> Verify runtime_example (LoginRequest.Password login_wrong_password) (PasswordHash user_alice)"
  by (simp add: runtime_example_def login_wrong_password_def user_alice_def)

lemma example_logins_valid:
  "IsValidLoginRequest login_unknown" "IsValidLoginRequest login_wrong_password"
  by (simp_all add: IsValidLoginRequest_def login_unknown_def login_wrong_password_def
      RequiredAttribute_def IsNullOrWhiteSpace_def IsWhiteSpace_def EmailAddressAttribute_def)

subsection \<open>Failed logins\<close>

text \<open>
  Claim C3. For every login request, if no user is stored under the normalized
  email, or one is stored and the password fails its verification, \<open>LoginAsync\<close>
  returns null, and the endpoint answers a request that passes validation with the
  one response 401 ``Invalid email or password'': the same value in both cases.
\<close>

theorem Login_failures_identical:
  assumes "find (\<lambda>u. User.Email u = Trim (ToLower (LoginRequest.Email request))) (Users ctx) = None \<or>
           (\<exists>user. find (\<lambda>u. User.Email u = Trim (ToLower (LoginRequest.Email request))) (Users ctx)
                      = Some user \<and>
                   \<not> Verify rt (LoginRequest.Password request) (PasswordHash user))"
  shows "fst (LoginAsync rt jwtSettings ctx request) = None \<and>
         (IsValidLoginRequest request \<longrightarrow>
            fst (Login rt jwtSettings ctx request) = Unauthorized ''Invalid email or password'')"
  using assms by (auto simp: LoginAsync_def Login_def Let_def split: option.splits)

text \<open>
  On the example: an email that no user has, and the email of a user with a wrong
  password.
\<close>

theorem Login_failures_identical_witness:
  "fst (Login runtime_example settings_example ctx_example login_unknown) =
     Unauthorized ''Invalid email or password'' \<and>
   fst (Login runtime_example settings_example ctx_example login_wrong_password) =
     Unauthorized ''Invalid email or password''"
proof -
  have miss: "find (\<lambda>u. User.Email u = Trim (ToLower (LoginRequest.Email login_unknown)))
                (Users ctx_example) = None \<or>
              (\<exists>user. find (\<lambda>u. User.Email u = Trim (ToLower (LoginRequest.Email login_unknown)))
                         (Users ctx_example) = Some user \<and>
                      \<not> Verify runtime_example (LoginRequest.Password login_unknown) (PasswordHash user))"
    using example_lookup_unknown by simp
  have wrong: "find (\<lambda>u. User.Email u = Trim (ToLower (LoginRequest.Email login_wrong_password)))
                (Users ctx_example) = None \<or>
              (\<exists>user. find (\<lambda>u. User.Email u = Trim (ToLower (LoginRequest.Email login_wrong_password)))
                         (Users ctx_example) = Some user \<and>
                      \<not> Verify runtime_example (LoginRequest.Password login_wrong_password)
                           (PasswordHash user))"
    using example_lookup_alice example_wrong_password by simp
  show ?thesis
    using Login_failures_identical [OF miss, of settings_example]
      Login_failures_identical [OF wrong, of settings_example] example_logins_valid
    by simp
qed

subsection \<open>Verification calls of a login\<close>

text \<open>
  Claim C4, as it is stated (a lookup miss still performs a password verification,
  as a wrong password does), fails: for the unknown email the lookup misses and no
  verification is called, while the wrong password costs one.
\<close>

theorem Login_lookup_miss_verifies_counterexample:
  "find (\<lambda>u. User.Email u = Trim (ToLower (LoginRequest.Email login_unknown))) (Users ctx_example) = None \<and>
   VerifyCalls (snd (LoginAsync runtime_example settings_example ctx_example login_unknown)) = 0 \<and>
   VerifyCalls (snd (LoginAsync runtime_example settings_example ctx_example login_wrong_password)) = 1"
  by (simp add: LoginAsync_def example_lookup_unknown example_lookup_alice example_wrong_password
      VerifyCalls_def Let_def)

text \<open>
  Claim C4, amended. A login calls the password verification exactly when a user is
  stored under the normalized email, once and against that user's hash; on a lookup
  miss it returns the failure after logging alone, without a verification against
  a dummy hash.
\<close>

theorem LoginAsync_verify_calls:
  "VerifyCalls (snd (LoginAsync rt jwtSettings ctx request)) =
     (case find (\<lambda>u. User.Email u = Trim (ToLower (LoginRequest.Email request))) (Users ctx) of
        None \<Rightarrow> 0
      | Some user \<Rightarrow> 1) \<and>
   snd (LoginAsync rt jwtSettings ctx request) =
     (case find (\<lambda>u. User.Email u = Trim (ToLower (LoginRequest.Email request))) (Users ctx) of
        None \<Rightarrow> [LogWarning ''Login failed: User not found for {Email}'']
      | Some user \<Rightarrow>
          [BCryptVerify (LoginRequest.Password request) (PasswordHash user),
           if Verify rt (LoginRequest.Password request) (PasswordHash user)
           then LogInformation ''User logged in successfully: {Email}''
           else LogWarning ''Login failed: Invalid password for {Email}''])"
  by (simp add: LoginAsync_def VerifyCalls_def Let_def split: option.splits)

theorem LoginAsync_verify_calls_witness:
  "snd (LoginAsync runtime_example settings_example ctx_example login_unknown) =
     [LogWarning ''Login failed: User not found for {Email}''] \<and>
   snd (LoginAsync runtime_example settings_example ctx_example login_wrong_password) =
     [BCryptVerify ''wrong horse'' ''$2a$11$correct horse'',
      LogWarning ''Login failed: Invalid password for {Email}'']"
  using LoginAsync_verify_calls [of runtime_example settings_example ctx_example login_unknown]
    LoginAsync_verify_calls [of runtime_example settings_example ctx_example login_wrong_password]
    example_wrong_password
  by (simp add: example_lookup_unknown example_lookup_alice)
     (simp add: login_wrong_password_def user_alice_def)

subsection \<open>Registration and the unique index\<close>

text \<open>
  A request that runs alone never meets the rejection of the insert: the existence
  check has excluded it. A rejection of the insert leaves the service as the
  exception and the pipeline as the response 500.
\<close>

lemma SaveAddedUser_after_check:
  "\<not> EmailExistsAsync ctx email \<Longrightarrow>
   \<exists>user' ctx'. SaveAddedUser ctx (user\<lparr>User.Email := Trim (ToLower email)\<rparr>) = Inr (user', ctx')"
  by (simp add: EmailExistsAsync_def SaveAddedUser_def Let_def)

lemma RegisterAsync_alone:
  "\<exists>result. fst (RegisterAsync rt jwtSettings (\<lambda>ctx. ctx) ctx request) = Inr result"
  by (simp add: RegisterAsync_def EmailExistsAsync_def SaveAddedUser_def Let_def)

lemma Register_store_rejection:
  assumes "IsValidRegisterRequest request"
      and "\<not> EmailExistsAsync ctx (RegisterRequest.Email request)"
      and "EmailExistsAsync (others ctx) (RegisterRequest.Email request)"
  shows "fst (Register rt jwtSettings others ctx request) =
           Inl (DbUpdateException ''UNIQUE constraint failed: Users.Email'')"
    and "ExceptionMiddleware isDevelopment (fst (Register rt jwtSettings others ctx request)) =
           InternalServerError
             (if isDevelopment then ''UNIQUE constraint failed: Users.Email''
              else ''An unexpected error occurred. Please try again later.'')"
  using assms
  by (simp_all add: Register_def RegisterAsync_def EmailExistsAsync_def SaveAddedUser_def Let_def)

text \<open>
  Claim C2 (a duplicate-key rejection of the insert is answered with Conflict) does
  not hold of the code. A valid registration of \<open>carol@example.com\<close> passes the
  existence check, a concurrent registration of the same email commits, the insert
  is rejected by the unique index, and the caller receives the generic 500 of the
  exception middleware, not 409.
\<close>

theorem Register_duplicate_key_answers_500:
  "IsValidRegisterRequest register_carol \<and>
   \<not> EmailExistsAsync ctx_example (RegisterRequest.Email register_carol) \<and>
   EmailExistsAsync (concurrent_registration ctx_example) (RegisterRequest.Email register_carol) \<and>
   fst (Register runtime_example settings_example concurrent_registration ctx_example register_carol) =
     Inl (DbUpdateException ''UNIQUE constraint failed: Users.Email'') \<and>
   ExceptionMiddleware (IsDevelopment runtime_example)
     (fst (Register runtime_example settings_example concurrent_registration ctx_example
             register_carol)) =
     InternalServerError ''An unexpected error occurred. Please try again later.''"
proof -
  have v: "IsValidRegisterRequest register_carol"
    by (simp add: IsValidRegisterRequest_def register_carol_def RequiredAttribute_def
        IsNullOrWhiteSpace_def IsWhiteSpace_def EmailAddressAttribute_def MaxLengthAttribute_def
        MinLengthAttribute_def)
  have c: "\<not> EmailExistsAsync ctx_example (RegisterRequest.Email register_carol)"
    by (simp add: EmailExistsAsync_def register_carol_def ToLower_examples Trim_examples
        ctx_example_def user_alice_def user_bob_def)
  have d: "EmailExistsAsync (concurrent_registration ctx_example) (RegisterRequest.Email register_carol)"
    by (simp add: EmailExistsAsync_def register_carol_def ToLower_examples Trim_examples
        concurrent_registration_def)
  show ?thesis
    using v c d
      Register_store_rejection [where others = concurrent_registration and ctx = ctx_example, OF v c d]
    by (simp add: runtime_example_def)
qed

subsection \<open>Token lifetime\<close>

text \<open>
  Claim C7. The lifetime is the one configured value \<open>ExpirationMinutes\<close>, 60 by
  default: an issued token expires that many minutes after its issuance. The
  handler is configured with lifetime validation on and a clock skew of zero, so
  validation of a token signed with the server's key fails with \<open>Expired\<close> exactly
  when the current time is past the token's expiry; a token issued by the service
  is expired from the first instant after issuance plus lifetime, and valid until
  then.
\<close>

theorem token_expiry:
  "ExpirationMinutes DefaultJwtSettings = 60 \<and>
   ExpiresAt (GenerateAuthResponse rt jwtSettings user) =
     UtcNow rt + 60 * ExpirationMinutes jwtSettings \<and>
   ValidTo (Token (GenerateAuthResponse rt jwtSettings user)) =
     UtcNow rt + 60 * ExpirationMinutes jwtSettings \<and>
   ClockSkew (ConfigureJwtBearer jwtSettings) = 0 \<and>
   ValidateLifetime (ConfigureJwtBearer jwtSettings) \<and>
   (ValidateToken (ConfigureJwtBearer jwtSettings) now (Some token) = Inl Expired \<longleftrightarrow>
      SigningKey token = SecretKey jwtSettings \<and> ValidTo token < now) \<and>
   ValidateToken (ConfigureJwtBearer jwtSettings) now
       (Some (Token (GenerateAuthResponse rt jwtSettings user))) =
     (if UtcNow rt + 60 * ExpirationMinutes jwtSettings < now then Inl Expired
      else Inr (User.Id user))"
  by (simp add: DefaultJwtSettings_def GenerateAuthResponse_def AddMinutes_def Let_def
      ConfigureJwtBearer_def ValidateToken_def)

text \<open>
  On the example: issued at 1000 with the default 60 minutes, the token expires at
  4600; it is accepted at 4600 and expired at 4601.
\<close>

theorem token_expiry_witness:
  "ExpiresAt (GenerateAuthResponse runtime_example settings_example user_alice) = 4600 \<and>
   ValidateToken (ConfigureJwtBearer settings_example) 4600
       (Some (Token (GenerateAuthResponse runtime_example settings_example user_alice))) = Inr 10 \<and>
   ValidateToken (ConfigureJwtBearer settings_example) 4601
       (Some (Token (GenerateAuthResponse runtime_example settings_example user_alice))) =
     Inl Expired"
  using token_expiry [of runtime_example settings_example user_alice 4600]
    token_expiry [of runtime_example settings_example user_alice 4601]
  by (simp add: runtime_example_def settings_example_def DefaultJwtSettings_def user_alice_def)

end
